theory Spec2Isabelle
  imports Complex_Main "HOL-Library.AList"
begin

section \<open>JavaScript strings\<close>

text \<open>
  A JavaScript string is a sequence of UTF-16 code units; \<open>length\<close>, \<open>substring\<close>,
  \<open>includes\<close> and the regular expressions of the program (none has the \<open>u\<close> flag) all
  count code units. A string is therefore a list of code units, each a natural number.
  \<open>js\<close> turns an ASCII literal into such a list; letters outside ASCII are written by
  their code unit (233 is e-acute, 201 is E-acute, 186 the masculine ordinal sign).
\<close>

type_synonym jsstring = "nat list"

definition js :: "string \<Rightarrow> jsstring" where
  "js s = map of_char s"

text \<open>\<open>s.startsWith(p)\<close> and \<open>s.includes(p)\<close>.\<close>

fun startsWith :: "jsstring \<Rightarrow> jsstring \<Rightarrow> bool" where
  "startsWith s [] = True"
| "startsWith [] (p # ps) = False"
| "startsWith (c # cs) (p # ps) = (c = p \<and> startsWith cs ps)"

fun js_includes :: "jsstring \<Rightarrow> jsstring \<Rightarrow> bool" where
  "js_includes [] p = (p = [])"
| "js_includes (c # cs) p = (startsWith (c # cs) p \<or> js_includes cs p)"

text \<open>
  \<open>toUpperCase\<close> and \<open>toLowerCase\<close> map every code point by the Unicode case tables.
  The model is exact on ASCII and on Latin-1 (where the Portuguese letters live):
  sharp s (223) becomes \<open>SS\<close>, the micro sign (181) and y-diaeresis (255) leave Latin-1.
  It also holds the two further code units whose upper case is an ASCII letter, dotless i
  (305) and long s (383), and the code units beyond Latin-1 whose lower case falls into
  Latin-1 or ASCII. Every other code unit (Greek, Cyrillic, ligatures, ...) is left
  unchanged, so the model is exact for texts in ASCII and Latin-1. For the search of the
  two literals of \<open>detectarNivelEscolar\<close> it is exact on every string: the upper case of
  any other code unit lies outside the literals or is a pair of letters (\<open>ST\<close>, \<open>FI\<close> for
  the ligatures) that cannot be part of an occurrence.
\<close>

definition upper_unit :: "nat \<Rightarrow> jsstring" where
  "upper_unit c =
     (if 97 \<le> c \<and> c \<le> 122 then [c - 32]
      else if c = 181 then [924]
      else if c = 223 then [83, 83]
      else if 224 \<le> c \<and> c \<le> 254 \<and> c \<noteq> 247 then [c - 32]
      else if c = 255 then [376]
      else if c = 305 then [73]
      else if c = 383 then [83]
      else [c])"

definition toUpperCase :: "jsstring \<Rightarrow> jsstring" where
  "toUpperCase s = concat (map upper_unit s)"

definition lower_unit :: "nat \<Rightarrow> jsstring" where
  "lower_unit c =
     (if 65 \<le> c \<and> c \<le> 90 then [c + 32]
      else if 192 \<le> c \<and> c \<le> 222 \<and> c \<noteq> 215 then [c + 32]
      else if c = 304 then [105, 775]
      else if c = 376 then [255]
      else if c = 7838 then [223]
      else if c = 8490 then [107]
      else if c = 8491 then [229]
      else [c])"

definition toLowerCase :: "jsstring \<Rightarrow> jsstring" where
  "toLowerCase s = concat (map lower_unit s)"

text \<open>
  White space as \<open>\s\<close> and \<open>trim\<close> see it: tab, line feed, vertical tab, form feed,
  carriage return, space, no-break space, the Unicode space separators, the line and
  paragraph separators and the byte order mark.
\<close>

definition isSpace :: "nat \<Rightarrow> bool" where
  "isSpace c =
     ((9 \<le> c \<and> c \<le> 13) \<or> c = 32 \<or> c = 160 \<or> c = 5760 \<or> (8192 \<le> c \<and> c \<le> 8202)
      \<or> c = 8232 \<or> c = 8233 \<or> c = 8239 \<or> c = 8287 \<or> c = 12288 \<or> c = 65279)"

definition trim :: "jsstring \<Rightarrow> jsstring" where
  "trim s = rev (dropWhile isSpace (rev (dropWhile isSpace s)))"

text \<open>\<open>\d\<close> and \<open>[A-Z]\<close>.\<close>

definition isDigit :: "nat \<Rightarrow> bool" where
  "isDigit c = (48 \<le> c \<and> c \<le> 57)"

definition isUpperAZ :: "nat \<Rightarrow> bool" where
  "isUpperAZ c = (65 \<le> c \<and> c \<le> 90)"

text \<open>
  \<open>parseInt(ds, 10)\<close> on a string of decimal digits. The model computes the exact
  number; JavaScript rounds it to a double above \<open>2^53\<close>.
\<close>

definition parseInt :: "jsstring \<Rightarrow> int" where
  "parseInt ds = foldl (\<lambda>n c. 10 * n + (int c - 48)) 0 ds"

section \<open>Validators (utils/validators)\<close>

datatype NivelEscolar = Fundamental | Medio

text \<open>
  \<open>detectarNivelEscolar\<close>: the label is upper-cased and searched for the two literals
  \<open>S\<acute>ERIE\<close> (with E-acute, 201) and \<open>SERIE\<close>.
\<close>

definition SERIE_acento :: jsstring where
  "SERIE_acento = [83, 201, 82, 73, 69]"

definition SERIE :: jsstring where
  "SERIE = js ''SERIE''"

definition detectarNivelEscolar :: "jsstring \<Rightarrow> NivelEscolar" where
  "detectarNivelEscolar serie =
     (let serieUpper = toUpperCase serie in
      if js_includes serieUpper SERIE_acento \<or> js_includes serieUpper SERIE
      then Medio else Fundamental)"

definition validarHabilidadeNivel :: "jsstring \<Rightarrow> NivelEscolar \<Rightarrow> bool" where
  "validarHabilidadeNivel codigo nivelEscolar =
     (if nivelEscolar = Medio then startsWith codigo (js ''EM'')
      else startsWith codigo (js ''EF''))"

text \<open>
  \<open>codigo.match(/^EF(\d{2})/)\<close>: the two digits after the prefix, each already read
  with \<open>parseInt\<close>, or \<open>None\<close> when the code does not start that way.
\<close>

definition match_EF_digitos :: "jsstring \<Rightarrow> (int \<times> int) option" where
  "match_EF_digitos codigo =
     (case codigo of
        e # f # a # b # _ \<Rightarrow>
          if e = 69 \<and> f = 70 \<and> isDigit a \<and> isDigit b
          then Some (parseInt [a], parseInt [b]) else None
      | _ \<Rightarrow> None)"

text \<open>
  \<open>validarHabilidadeAno\<close> (the revision with grade cycles). \<open>anoEsperado\<close> is
  \<open>number | null\<close>; the caller obtains it from \<open>parseInt\<close>, so it is an integer.
\<close>

definition validarHabilidadeAno :: "jsstring \<Rightarrow> int option \<Rightarrow> bool" where
  "validarHabilidadeAno codigo anoEsperado =
     (case anoEsperado of
        None \<Rightarrow> True
      | Some ano \<Rightarrow>
          if startsWith codigo (js ''EM'') then True
          else (case match_EF_digitos codigo of
                  None \<Rightarrow> True
                | Some (d1, d2) \<Rightarrow>
                    if d1 = 0 then \<bar>d2 - ano\<bar> \<le> 1
                    else if ano \<ge> d1 \<and> ano \<le> d2 then True
                    else False))"

text \<open>
  The repository holds a second revision of \<open>validarHabilidadeAno\<close>, in the file of the
  controller (controllers/context.controller.ts), with the \<open>extrairAnoDaHabilidade\<close> it
  calls: \<open>extrairAnoDaHabilidade\<close> returns the first of the two digits on both of its
  branches, and \<open>validarHabilidadeAno\<close> accepts a distance of at most one from it.
\<close>

definition extrairAnoDaHabilidade_rev1 :: "jsstring \<Rightarrow> int option" where
  "extrairAnoDaHabilidade_rev1 codigo =
     (if \<not> startsWith codigo (js ''EF'') then None
      else (case match_EF_digitos codigo of
              None \<Rightarrow> None
            | Some (primeiroDigito, d2) \<Rightarrow> Some primeiroDigito))"

definition validarHabilidadeAno_rev1 :: "jsstring \<Rightarrow> int option \<Rightarrow> bool" where
  "validarHabilidadeAno_rev1 codigo anoEsperado =
     (case anoEsperado of
        None \<Rightarrow> True
      | Some ano \<Rightarrow>
          if startsWith codigo (js ''EM'') then True
          else (case extrairAnoDaHabilidade_rev1 codigo of
                  None \<Rightarrow> True
                | Some anoHabilidade \<Rightarrow> \<bar>anoHabilidade - ano\<bar> \<le> 1))"

text \<open>
  \<open>codigo.match(/^(EF|EM)\d{2}([A-Z]{2,3})\d{2,3}$/)\<close>, returning group 2. The letter
  group is greedy: three letters are tried first, then two; after either, the rest of
  the string must be two or three digits and nothing else.
\<close>

definition resto_digitos :: "jsstring \<Rightarrow> bool" where
  "resto_digitos r = ((length r = 2 \<or> length r = 3) \<and> list_all isDigit r)"

definition tenta_letras :: "nat \<Rightarrow> jsstring \<Rightarrow> jsstring option" where
  "tenta_letras n r =
     (if n \<le> length r \<and> list_all isUpperAZ (take n r) \<and> resto_digitos (drop n r)
      then Some (take n r) else None)"

definition match_area :: "jsstring \<Rightarrow> jsstring option" where
  "match_area codigo =
     (case codigo of
        e # x # a # b # r \<Rightarrow>
          if e = 69 \<and> (x = 70 \<or> x = 77) \<and> isDigit a \<and> isDigit b
          then (case tenta_letras 3 r of Some ls \<Rightarrow> Some ls | None \<Rightarrow> tenta_letras 2 r)
          else None
      | _ \<Rightarrow> None)"

definition mapeamentoFundamentalParaArea :: "(jsstring \<times> jsstring) list" where
  "mapeamentoFundamentalParaArea =
     [(js ''HI'', js ''CHS''), (js ''GE'', js ''CHS''), (js ''LP'', js ''LGG''),
      (js ''AR'', js ''LGG''), (js ''EF'', js ''LGG''), (js ''LI'', js ''LGG''),
      (js ''MA'', js ''MAT''), (js ''CI'', js ''CNT'')]"

text \<open>
  \<open>validarHabilidadeArea\<close>. \<open>!areaEsperada\<close> holds for \<open>null\<close> and for the empty
  string.
\<close>

definition validarHabilidadeArea :: "jsstring \<Rightarrow> jsstring option \<Rightarrow> bool" where
  "validarHabilidadeArea codigo areaEsperada =
     (case areaEsperada of
        None \<Rightarrow> True
      | Some area \<Rightarrow>
          if area = [] then True
          else (case match_area codigo of
                  None \<Rightarrow> False
                | Some codigoDisciplina \<Rightarrow>
                    if length area = 2 then codigoDisciplina = area
                    else if length area = 3 \<and> startsWith codigo (js ''EM'')
                    then codigoDisciplina = area
                    else map_of mapeamentoFundamentalParaArea codigoDisciplina = Some area))"

text \<open>
  Case-insensitive matching of a regular expression without the \<open>u\<close> flag compares
  canonical forms: a code unit is replaced by its upper case when that is a single code
  unit, except that a code unit from 128 on is never mapped below 128.
\<close>

definition canonicalize :: "nat \<Rightarrow> nat" where
  "canonicalize c =
     (case upper_unit c of
        [u] \<Rightarrow> if c \<ge> 128 \<and> u < 128 then c else u
      | _ \<Rightarrow> c)"

definition startsWith_ci :: "jsstring \<Rightarrow> jsstring \<Rightarrow> bool" where
  "startsWith_ci s p = startsWith (map canonicalize s) (map canonicalize p)"

text \<open>
  \<open>serie.match(/(\d+)[\<ordmasculine>\<ordfeminine>\<degree>]?\s*(ano|s\<acute>erie|serie)/i)\<close>.
  \<open>casa_numero_palavra\<close> matches the expression at the start of a string and returns
  group 1. Taking the longest run of digits, the ordinal sign when present and the
  longest run of white space is exact: what each of the three would give back on
  backtracking (a digit, an ordinal sign, a space) cannot start the next part of the
  expression. \<open>procura_numero_palavra\<close> tries every start position from the left.
\<close>

definition ordinal :: "nat \<Rightarrow> bool" where
  "ordinal c = (c = 186 \<or> c = 170 \<or> c = 176)"

definition palavras_ano :: "jsstring list" where
  "palavras_ano = [js ''ano'', [115, 233, 114, 105, 101], js ''serie'']"

definition casa_numero_palavra :: "jsstring \<Rightarrow> jsstring option" where
  "casa_numero_palavra s =
     (let ds = takeWhile isDigit s;
          r1 = dropWhile isDigit s;
          r2 = (case r1 of [] \<Rightarrow> r1 | c # r \<Rightarrow> if ordinal c then r else r1);
          r3 = dropWhile isSpace r2
      in if ds \<noteq> [] \<and> list_ex (startsWith_ci r3) palavras_ano then Some ds else None)"

fun procura_numero_palavra :: "jsstring \<Rightarrow> jsstring option" where
  "procura_numero_palavra [] = None"
| "procura_numero_palavra (c # r) =
     (case casa_numero_palavra (c # r) of
        Some ds \<Rightarrow> Some ds
      | None \<Rightarrow> procura_numero_palavra r)"

text \<open>\<open>s.match(/\d+/)\<close>: the first maximal run of digits.\<close>

definition primeiro_numero :: "jsstring \<Rightarrow> jsstring option" where
  "primeiro_numero s =
     (let r = dropWhile (\<lambda>c. \<not> isDigit c) s
      in if r = [] then None else Some (takeWhile isDigit r))"

definition extrairNumeroAno :: "jsstring \<Rightarrow> int option" where
  "extrairNumeroAno serie =
     (case procura_numero_palavra serie of
        Some ds \<Rightarrow> Some (parseInt ds)
      | None \<Rightarrow>
          (case primeiro_numero serie of
             Some ds \<Rightarrow>
               (let num = parseInt ds in
                if num \<ge> 1 \<and> num \<le> 9 then Some num else None)
           | None \<Rightarrow> None))"

definition obterDescricaoNivelEscolar :: "jsstring \<Rightarrow> jsstring" where
  "obterDescricaoNivelEscolar serie =
     (if detectarNivelEscolar serie = Medio then js ''Ensino m'' @ [233] @ js ''dio''
      else js ''Ensino fundamental'')"

section \<open>Filters (utils/filters)\<close>

text \<open>
  A node of the retriever. The source nests optional objects
  (\<open>node?.text\<close>, \<open>node?.metadata?.page_number\<close>, \<open>score\<close>); a missing object on the
  way reads as a missing field, so the record holds the three optional fields.
  The score is a JavaScript number, taken here as a real; the rounding of doubles is
  outside the model.
\<close>

record RAGNode =
  node_text :: "jsstring option"
  page_number :: "int option"
  score :: "real option"

record EnrichedNode = RAGNode +
  matchCount :: int
  penalizacaoNivel :: int
  boostedScore :: real
  nivelCorreto :: bool

definition BOOST_HABILIDADE_NIVEL_CORRETO :: int where "BOOST_HABILIDADE_NIVEL_CORRETO = 5"
definition BOOST_HABILIDADE_AREA_CORRETA :: int where "BOOST_HABILIDADE_AREA_CORRETA = 10"
definition BOOST_HABILIDADE_ANO_CORRETO :: int where "BOOST_HABILIDADE_ANO_CORRETO = 8"
definition BOOST_MENCIONOU_NIVEL_CORRETO :: int where "BOOST_MENCIONOU_NIVEL_CORRETO = 4"
definition BOOST_DISCIPLINA :: int where "BOOST_DISCIPLINA = 3"
definition BOOST_SERIE :: int where "BOOST_SERIE = 2"
definition BOOST_TEMA_EXATO :: int where "BOOST_TEMA_EXATO = 80"
definition BOOST_TEMA_PARCIAL :: int where "BOOST_TEMA_PARCIAL = 10"
definition PENALIDADE_HABILIDADE_NIVEL_ERRADO :: int where "PENALIDADE_HABILIDADE_NIVEL_ERRADO = - 50"
definition PENALIDADE_HABILIDADE_AREA_ERRADA :: int where "PENALIDADE_HABILIDADE_AREA_ERRADA = - 40"
definition PENALIDADE_HABILIDADE_ANO_ERRADO :: int where "PENALIDADE_HABILIDADE_ANO_ERRADO = - 35"
definition PENALIDADE_MENCIONOU_NIVEL_ERRADO :: int where "PENALIDADE_MENCIONOU_NIVEL_ERRADO = - 20"

text \<open>
  The regular expression of both filters,
  \<open>(EF\d{2}[A-Z]{2}\d{2}|EM\d{2}[A-Z]{3}\d{2,3})\<close>, matched at the start of a string;
  the result is the length of the match. The flag \<open>ci\<close> is the \<open>i\<close> flag of the
  scorer's copy: with it a lower-case ASCII letter matches too (no code unit from 128 on
  has an ASCII canonical form).
\<close>

definition letra :: "bool \<Rightarrow> nat \<Rightarrow> bool" where
  "letra ci c = (isUpperAZ c \<or> (ci \<and> 97 \<le> c \<and> c \<le> 122))"

definition literal :: "bool \<Rightarrow> nat \<Rightarrow> nat \<Rightarrow> bool" where
  "literal ci p c = (c = p \<or> (ci \<and> c = p + 32))"

definition prefixo :: "bool \<Rightarrow> jsstring \<Rightarrow> jsstring \<Rightarrow> bool" where
  "prefixo ci p s = (length p \<le> length s \<and> list_all2 (literal ci) p (take (length p) s))"

definition repete :: "(nat \<Rightarrow> bool) \<Rightarrow> nat \<Rightarrow> jsstring \<Rightarrow> bool" where
  "repete P n s = (n \<le> length s \<and> list_all P (take n s))"

definition casa_codigo :: "bool \<Rightarrow> jsstring \<Rightarrow> nat option" where
  "casa_codigo ci s =
     (if prefixo ci (js ''EF'') s \<and> repete isDigit 2 (drop 2 s)
         \<and> repete (letra ci) 2 (drop 4 s) \<and> repete isDigit 2 (drop 6 s)
      then Some 8
      else if prefixo ci (js ''EM'') s \<and> repete isDigit 2 (drop 2 s)
         \<and> repete (letra ci) 3 (drop 4 s) \<and> repete isDigit 2 (drop 7 s)
      then (if repete isDigit 3 (drop 7 s) then Some 10 else Some 9)
      else None)"

text \<open>
  \<open>texto.match(regex)\<close> with the \<open>g\<close> flag: every match from left to right, the search
  resuming where the previous match ended.
\<close>

function todos_codigos :: "bool \<Rightarrow> jsstring \<Rightarrow> jsstring list" where
  "todos_codigos ci s =
     (case casa_codigo ci s of
        Some n \<Rightarrow> take n s # todos_codigos ci (drop n s)
      | None \<Rightarrow> (case s of [] \<Rightarrow> [] | c # r \<Rightarrow> todos_codigos ci r))"
  by pat_completeness auto
termination
  by (relation "measure (\<lambda>(ci, s). length s)")
     (auto simp: casa_codigo_def repete_def split: if_splits)

text \<open>\<open>s.search(regex)\<close>: the index of the first match.\<close>

fun procura_codigo :: "bool \<Rightarrow> jsstring \<Rightarrow> nat option" where
  "procura_codigo ci [] = None"
| "procura_codigo ci (c # r) =
     (if casa_codigo ci (c # r) \<noteq> None then Some 0
      else map_option Suc (procura_codigo ci r))"

subsection \<open>The relevance scorer\<close>

text \<open>\<open>s.split(' ')\<close>: the pieces between single spaces, empty pieces included.\<close>

fun split_espaco :: "jsstring \<Rightarrow> jsstring list" where
  "split_espaco [] = [[]]"
| "split_espaco (c # r) =
     (if c = 32 then [] # split_espaco r
      else (case split_espaco r of
              [] \<Rightarrow> [[c]]
            | w # ws \<Rightarrow> (c # w) # ws))"

definition palavrasExcecao :: "jsstring list" where
  "palavrasExcecao =
     [js ''to'', js ''be'', js ''f'' @ [233], js ''up'', js ''on'', js ''in'', js ''at'',
      js ''by'', js ''of'']"

text \<open>The phrase naming the expected level and the phrases naming the other one.\<close>

definition palavrasNivel :: "NivelEscolar \<Rightarrow> jsstring \<times> jsstring list" where
  "palavrasNivel nivelEscolar =
     (if nivelEscolar = Medio
      then (js ''ensino m'' @ [233] @ js ''dio'',
            [js ''ensino fundamental'', js ''anos iniciais'', js ''anos finais'',
             js ''fundamental ii''])
      else (js ''ensino fundamental'',
            [js ''ensino m'' @ [233] @ js ''dio'', js ''ensino medio'']))"

text \<open>\<open>if (areaBNCC)\<close>: neither \<open>null\<close> nor the empty string.\<close>

definition area_informada :: "jsstring option \<Rightarrow> bool" where
  "area_informada areaBNCC = (case areaBNCC of None \<Rightarrow> False | Some a \<Rightarrow> a \<noteq> [])"

text \<open>
  The body of the loop over the codes found in a text; the state is the pair
  \<open>(boostScore, penaltyScore)\<close>.
\<close>

definition pontuar_codigo ::
  "NivelEscolar \<Rightarrow> int option \<Rightarrow> jsstring option \<Rightarrow> int \<times> int \<Rightarrow> jsstring \<Rightarrow> int \<times> int" where
  "pontuar_codigo nivelEscolar anoEsperado areaBNCC bp codigo =
     (let codigoUpper = toUpperCase codigo; boostScore = fst bp; penaltyScore = snd bp in
      if validarHabilidadeNivel codigoUpper nivelEscolar then
        (let b1 = boostScore + BOOST_HABILIDADE_NIVEL_CORRETO;
             bp2 = (if anoEsperado \<noteq> None \<and> nivelEscolar = Fundamental
                    then (if validarHabilidadeAno codigoUpper anoEsperado
                          then (b1 + BOOST_HABILIDADE_ANO_CORRETO, penaltyScore)
                          else (b1, penaltyScore + PENALIDADE_HABILIDADE_ANO_ERRADO))
                    else (b1, penaltyScore))
         in if area_informada areaBNCC
            then (if validarHabilidadeArea codigoUpper areaBNCC
                  then (fst bp2 + BOOST_HABILIDADE_AREA_CORRETA, snd bp2)
                  else (fst bp2, snd bp2 + PENALIDADE_HABILIDADE_AREA_ERRADA))
            else bp2)
      else (boostScore, penaltyScore + PENALIDADE_HABILIDADE_NIVEL_ERRADO))"

text \<open>The text the scorer reads: \<open>node.node?.text?.toLowerCase() || ''\<close>.\<close>

definition texto_minusculo :: "'a RAGNode_scheme \<Rightarrow> jsstring" where
  "texto_minusculo node = (case node_text node of None \<Rightarrow> [] | Some t \<Rightarrow> toLowerCase t)"

text \<open>The boosts that do not come from codes (steps 0 to 3 and the first half of 5).\<close>

definition boost_texto :: "jsstring \<Rightarrow> jsstring \<Rightarrow> jsstring \<Rightarrow> jsstring \<Rightarrow> int" where
  "boost_texto texto tema disciplina serie =
     (let temaLower = trim (toLowerCase tema);
          b0 = (if js_includes texto temaLower then BOOST_TEMA_EXATO else 0);
          palavrasChaveTema =
            filter (\<lambda>p. length p > 2 \<or> p \<in> set palavrasExcecao) (split_espaco temaLower);
          b1 = foldl (\<lambda>b palavra. if js_includes texto palavra then b + BOOST_TEMA_PARCIAL else b)
                 b0 palavrasChaveTema;
          b2 = (if js_includes texto (toLowerCase disciplina) then b1 + BOOST_DISCIPLINA else b1)
      in (case primeiro_numero serie of
            None \<Rightarrow> b2
          | Some anoMatch \<Rightarrow> if js_includes texto anoMatch then b2 + BOOST_SERIE else b2))"

definition enriquecer ::
  "jsstring \<Rightarrow> jsstring \<Rightarrow> jsstring \<Rightarrow> jsstring option \<Rightarrow> RAGNode \<Rightarrow> EnrichedNode" where
  "enriquecer tema disciplina serie areaBNCC node =
     (let nivelEscolar = detectarNivelEscolar serie;
          anoEsperado = extrairNumeroAno serie;
          palavraNivelCorreto = fst (palavrasNivel nivelEscolar);
          palavrasNivelErrado = snd (palavrasNivel nivelEscolar);
          texto = texto_minusculo node;
          codigosEncontrados = todos_codigos True texto;
          bp = foldl (pontuar_codigo nivelEscolar anoEsperado areaBNCC)
                 (boost_texto texto tema disciplina serie, 0) codigosEncontrados;
          boostScore = (if js_includes texto palavraNivelCorreto
                        then fst bp + BOOST_MENCIONOU_NIVEL_CORRETO else fst bp);
          penaltyScore = foldl (\<lambda>p palavraErrada.
                                  if js_includes texto palavraErrada
                                  then p + PENALIDADE_MENCIONOU_NIVEL_ERRADO else p)
                           (snd bp) palavrasNivelErrado
      in \<lparr> node_text = node_text node, page_number = page_number node, score = score node,
           matchCount = boostScore,
           penalizacaoNivel = penaltyScore,
           boostedScore = (case score node of None \<Rightarrow> 0 | Some sc \<Rightarrow> sc) * 100
                            + real_of_int boostScore + real_of_int penaltyScore,
           nivelCorreto = (penaltyScore \<ge> 0 \<or> codigosEncontrados = []) \<rparr>)"

text \<open>The predicate of the final \<open>filter\<close>.\<close>

definition mantem :: "EnrichedNode \<Rightarrow> bool" where
  "mantem node =
     (if penalizacaoNivel node < - 30 then False
      else matchCount node > 0 \<or> nivelCorreto node)"

text \<open>
  \<open>Array.prototype.sort\<close> is stable; with the comparator \<open>b.boostedScore - a.boostedScore\<close>
  it orders by descending score, as the stable insertion sort on the negated key does.
\<close>

definition filtrarNodesPorRelevancia ::
  "RAGNode list \<Rightarrow> jsstring \<Rightarrow> jsstring \<Rightarrow> jsstring \<Rightarrow> jsstring option \<Rightarrow> EnrichedNode list" where
  "filtrarNodesPorRelevancia nodes tema disciplina serie areaBNCC =
     sort_key (\<lambda>n. - boostedScore n)
       (filter mantem (map (enriquecer tema disciplina serie areaBNCC) nodes))"

subsection \<open>The code extractor\<close>

record Habilidade =
  codigo :: jsstring
  descricao :: jsstring

text \<open>
  The \<open>replace\<close> that cleans the start of a description: its expression is \<open>^\s*\<close>
  followed by one or more members of a class that holds the hyphen, the en dash (8211),
  the em dash (8212), the closing parenthesis, the colon and \<open>\s\<close>. White space
  belongs to the class, so the expression matches exactly the longest prefix of class
  members when that prefix is not empty, and the replacement removes it.
\<close>

definition marcador_lista :: "nat \<Rightarrow> bool" where
  "marcador_lista c = (c = 45 \<or> c = 8211 \<or> c = 8212 \<or> c = 41 \<or> c = 58 \<or> isSpace c)"

text \<open>
  The description that follows a code, from the text after the match: up to the end of
  the line or to the next code on the line, cleaned, trimmed, and cut after 200 code
  units with three dots appended.
\<close>

definition descricao_apos :: "jsstring \<Rightarrow> jsstring" where
  "descricao_apos resto =
     (let textoAteFimLinha = takeWhile (\<lambda>c. c \<noteq> 10) resto;
          fim = (case procura_codigo False textoAteFimLinha of
                   None \<Rightarrow> length textoAteFimLinha
                 | Some proximoCodigoMatch \<Rightarrow> proximoCodigoMatch);
          descricao = trim (dropWhile marcador_lista (take fim textoAteFimLinha))
      in if length descricao > 200 then take 200 descricao @ js ''...'' else descricao)"

text \<open>
  The \<open>while ((match = regex.exec(texto)) !== null)\<close> loop: every match of the
  case-sensitive expression with its description, in order.
\<close>

function capturas :: "jsstring \<Rightarrow> (jsstring \<times> jsstring) list" where
  "capturas s =
     (case casa_codigo False s of
        Some n \<Rightarrow> (take n s, descricao_apos (drop n s)) # capturas (drop n s)
      | None \<Rightarrow> (case s of [] \<Rightarrow> [] | c # r \<Rightarrow> capturas r))"
  by pat_completeness auto
termination
  by (relation "measure length")
     (auto simp: casa_codigo_def repete_def split: if_splits)

text \<open>
  The \<open>Map\<close> keeps its keys in insertion order and \<open>set\<close> on a present key replaces
  the value in place, which is what \<open>AList.update\<close> does on an association list.
\<close>

definition registrar ::
  "(jsstring \<times> jsstring) list \<Rightarrow> jsstring \<times> jsstring \<Rightarrow> (jsstring \<times> jsstring) list" where
  "registrar habilidades cd =
     (if length (snd cd) > 10 then
        (case map_of habilidades (fst cd) of
           None \<Rightarrow> AList.update (fst cd) (snd cd) habilidades
         | Some anterior \<Rightarrow>
             if length anterior < length (snd cd)
             then AList.update (fst cd) (snd cd) habilidades
             else habilidades)
      else habilidades)"

definition capturas_dos_nodes :: "'a RAGNode_scheme list \<Rightarrow> (jsstring \<times> jsstring) list" where
  "capturas_dos_nodes nodes =
     concat (map (\<lambda>node. capturas (case node_text node of None \<Rightarrow> [] | Some t \<Rightarrow> t)) nodes)"

definition todasHabilidades :: "'a RAGNode_scheme list \<Rightarrow> (jsstring \<times> jsstring) list" where
  "todasHabilidades nodes = foldl registrar [] (capturas_dos_nodes nodes)"

text \<open>\<open>!anoEsperado\<close> holds for \<open>null\<close> and for 0.\<close>

definition habilidade_valida ::
  "NivelEscolar \<Rightarrow> jsstring option \<Rightarrow> int option \<Rightarrow> jsstring \<Rightarrow> bool" where
  "habilidade_valida nivelEscolar areaBNCC anoEsperado cod =
     (let nivelValido = validarHabilidadeNivel cod nivelEscolar;
          areaValida = (\<not> area_informada areaBNCC \<or> validarHabilidadeArea cod areaBNCC);
          anoValido = (anoEsperado = None \<or> anoEsperado = Some 0
                       \<or> validarHabilidadeAno cod anoEsperado)
      in nivelValido \<and> areaValida \<and> anoValido)"

definition extrairHabilidadesBNCC ::
  "'a RAGNode_scheme list \<Rightarrow> NivelEscolar \<Rightarrow> jsstring option \<Rightarrow> int option \<Rightarrow> Habilidade list" where
  "extrairHabilidadesBNCC nodes nivelEscolar areaBNCC anoEsperado =
     map (\<lambda>cd. \<lparr> codigo = fst cd, descricao = snd cd \<rparr>)
       (take 15
          (filter (\<lambda>cd. habilidade_valida nivelEscolar areaBNCC anoEsperado (fst cd))
             (todasHabilidades nodes)))"

subsection \<open>The deduplicator\<close>

text \<open>
  The state of the loop is the pair \<open>(uniqueNodes, seenPages)\<close>. \<open>if (page && ...)\<close>
  fails for a missing page and for page 0. \<open>maxNodes\<close> is a number of nodes.
\<close>

definition passo_duplicados ::
  "nat \<Rightarrow> 'a RAGNode_scheme list \<times> int set \<Rightarrow> 'a RAGNode_scheme
     \<Rightarrow> 'a RAGNode_scheme list \<times> int set" where
  "passo_duplicados maxNodes st node =
     (case page_number node of
        None \<Rightarrow> st
      | Some page \<Rightarrow>
          if page \<noteq> 0 \<and> page \<notin> snd st \<and> length (fst st) < maxNodes
          then (fst st @ [node], insert page (snd st))
          else st)"

definition removerNodesDuplicados ::
  "'a RAGNode_scheme list \<Rightarrow> nat \<Rightarrow> 'a RAGNode_scheme list" where
  "removerNodesDuplicados nodes maxNodes = fst (foldl (passo_duplicados maxNodes) ([], {}) nodes)"

section \<open>Subject areas (utils/validators)\<close>

definition MAPEAMENTO_MEDIO :: "(jsstring \<times> jsstring) list" where
  "MAPEAMENTO_MEDIO =
     [(js ''hist'' @ [243] @ js ''ria'', js ''CHS''),
      (js ''historia'', js ''CHS''),
      (js ''geografia'', js ''CHS''),
      (js ''filosofia'', js ''CHS''),
      (js ''sociologia'', js ''CHS''),
      (js ''ci'' @ [234] @ js ''ncias humanas'', js ''CHS''),
      (js ''ciencias humanas'', js ''CHS''),
      (js ''ci'' @ [234] @ js ''ncias humanas e sociais'', js ''CHS''),
      (js ''ciencias humanas e sociais'', js ''CHS''),
      (js ''portugu'' @ [234] @ js ''s'', js ''LGG''),
      (js ''portugues'', js ''LGG''),
      (js ''l'' @ [237] @ js ''ngua portuguesa'', js ''LGG''),
      (js ''lingua portuguesa'', js ''LGG''),
      (js ''artes'', js ''LGG''),
      (js ''educa'' @ [231, 227] @ js ''o f'' @ [237] @ js ''sica'', js ''LGG''),
      (js ''educacao fisica'', js ''LGG''),
      (js ''ingl'' @ [234] @ js ''s'', js ''LGG''),
      (js ''ingles'', js ''LGG''),
      (js ''l'' @ [237] @ js ''ngua inglesa'', js ''LGG''),
      (js ''lingua inglesa'', js ''LGG''),
      (js ''espanhol'', js ''LGG''),
      (js ''linguagens'', js ''LGG''),
      (js ''produ'' @ [231, 227] @ js ''o textual'', js ''LGG''),
      (js ''producao textual'', js ''LGG''),
      (js ''reda'' @ [231, 227] @ js ''o'', js ''LGG''),
      (js ''redacao'', js ''LGG''),
      (js ''matem'' @ [225] @ js ''tica'', js ''MAT''),
      (js ''matematica'', js ''MAT''),
      (js ''biologia'', js ''CNT''),
      (js ''qu'' @ [237] @ js ''mica'', js ''CNT''),
      (js ''quimica'', js ''CNT''),
      (js ''f'' @ [237] @ js ''sica'', js ''CNT''),
      (js ''fisica'', js ''CNT''),
      (js ''ci'' @ [234] @ js ''ncias'', js ''CNT''),
      (js ''ciencias'', js ''CNT''),
      (js ''ci'' @ [234] @ js ''ncias da natureza'', js ''CNT''),
      (js ''ciencias da natureza'', js ''CNT'')]"

definition MAPEAMENTO_FUNDAMENTAL :: "(jsstring \<times> jsstring) list" where
  "MAPEAMENTO_FUNDAMENTAL =
     [(js ''hist'' @ [243] @ js ''ria'', js ''HI''),
      (js ''historia'', js ''HI''),
      (js ''geografia'', js ''GE''),
      (js ''portugu'' @ [234] @ js ''s'', js ''LP''),
      (js ''portugues'', js ''LP''),
      (js ''l'' @ [237] @ js ''ngua portuguesa'', js ''LP''),
      (js ''lingua portuguesa'', js ''LP''),
      (js ''artes'', js ''AR''),
      (js ''educa'' @ [231, 227] @ js ''o f'' @ [237] @ js ''sica'', js ''EF''),
      (js ''educacao fisica'', js ''EF''),
      (js ''lingua ingl'' @ [234] @ js ''sa'', js ''LI''),
      (js ''lingua inglesa'', js ''LI''),
      (js ''l'' @ [237] @ js ''ngua inglesa'', js ''LI''),
      (js ''ingl'' @ [234] @ js ''s'', js ''LI''),
      (js ''espanhol'', js ''LI''),
      (js ''matem'' @ [225] @ js ''tica'', js ''MA''),
      (js ''matematica'', js ''MA''),
      (js ''ci'' @ [234] @ js ''ncias'', js ''CI''),
      (js ''ciencias'', js ''CI''),
      (js ''ci'' @ [234] @ js ''ncias naturais'', js ''CI''),
      (js ''ciencias naturais'', js ''CI'')]"

definition disciplinasEspecificasMedio :: "jsstring list" where
  "disciplinasEspecificasMedio =
     [js ''biologia'', js ''qu'' @ [237] @ js ''mica'', js ''quimica'',
      js ''f'' @ [237] @ js ''sica'', js ''fisica'', js ''filosofia'', js ''sociologia'']"

text \<open>
  \<open>detectarAreaBNCC\<close>. The tables are object literals read with \<open>TABLE[key] || null\<close>;
  the names every object inherits (\<open>constructor\<close>, \<open>__proto__\<close>) are outside the model.
\<close>

definition detectarAreaBNCC :: "jsstring \<Rightarrow> NivelEscolar option \<Rightarrow> jsstring option" where
  "detectarAreaBNCC disciplina nivelEscolar =
     (let disciplinaLower = trim (toLowerCase disciplina) in
      if nivelEscolar = None \<and> disciplinaLower \<in> set disciplinasEspecificasMedio
      then map_of MAPEAMENTO_MEDIO disciplinaLower
      else if nivelEscolar = Some Medio then map_of MAPEAMENTO_MEDIO disciplinaLower
      else map_of MAPEAMENTO_FUNDAMENTAL disciplinaLower)"

section \<open>The retrieval service (services/rag.service)\<close>

record RAGQueryResult =
  rag_response :: jsstring
  rag_sourceNodes :: "RAGNode list"

text \<open>One entry of \<open>results\<close>: the object pushed after a query that succeeded.\<close>

record QueryOutcome =
  query :: jsstring
  query_response :: jsstring
  nodes :: "RAGNode list"

record MultiQueryResult =
  response :: jsstring
  sourceNodes :: "EnrichedNode list"
  queries :: "jsstring list"
  habilidades :: "Habilidade list"

text \<open>
  The decimal digits of a number (\<open>toString\<close> of a non-negative integer below
  \<open>10^21\<close>) and \<open>padStart(2, '0')\<close>.
\<close>

fun toString_nat :: "nat \<Rightarrow> jsstring" where
  "toString_nat n = (if n < 10 then [48 + n] else toString_nat (n div 10) @ [48 + n mod 10])"

definition padStart2 :: "jsstring \<Rightarrow> jsstring" where
  "padStart2 s = replicate (2 - length s) 48 @ s"

text \<open>\<open>parts.join(sep)\<close>.\<close>

fun join :: "jsstring list \<Rightarrow> jsstring \<Rightarrow> jsstring" where
  "join [] sep = []"
| "join [x] sep = x"
| "join (x # y # r) sep = x @ sep @ join (y # r) sep"

definition sp :: jsstring where
  "sp = js '' ''"

text \<open>The planned queries, by the three branches of the source.\<close>

definition queries_genericas ::
  "jsstring \<Rightarrow> jsstring \<Rightarrow> jsstring \<Rightarrow> jsstring \<Rightarrow> jsstring list" where
  "queries_genericas tema disciplina serie anoSerie =
     [anoSerie @ sp @ serie @ sp @ disciplina @ sp @ tema @ js '' habilidades'',
      anoSerie @ sp @ disciplina @ sp @ serie @ sp @ tema @ js '' objetos conhecimento'',
      anoSerie @ sp @ disciplina @ js '' compet'' @ [234] @ js ''ncias '' @ tema @ sp @ serie]"

definition planejar_queries ::
  "jsstring \<Rightarrow> jsstring \<Rightarrow> jsstring \<Rightarrow> jsstring \<Rightarrow> NivelEscolar \<Rightarrow> jsstring option \<Rightarrow> int option
     \<Rightarrow> jsstring list" where
  "planejar_queries tema disciplina serie anoSerie nivelEscolar areaBNCC anoEsperado =
     (let area = (case areaBNCC of None \<Rightarrow> [] | Some a \<Rightarrow> a) in
      if nivelEscolar = Medio \<and> area_informada areaBNCC then
        [anoSerie @ sp @ serie @ sp @ area @ sp @ disciplina @ sp @ tema
           @ js '' habilidades compet'' @ [234] @ js ''ncias'',
         js ''Ensino M'' @ [233] @ js ''dio '' @ area @ sp @ tema @ js '' objetos conhecimento'',
         js ''EM13'' @ area @ sp @ disciplina @ sp @ tema]
      else if nivelEscolar = Fundamental \<and> anoEsperado \<noteq> None \<and> area_informada areaBNCC then
        (let ano = toString_nat (nat (case anoEsperado of None \<Rightarrow> 0 | Some a \<Rightarrow> a));
             codigoAno = padStart2 ano in
         [serie @ sp @ disciplina @ sp @ tema @ js '' habilidades EF'' @ codigoAno @ area,
          js ''EF'' @ codigoAno @ area @ sp @ disciplina @ sp @ tema,
          ano @ [186] @ js '' ano '' @ disciplina @ sp @ tema @ js '' objetos conhecimento'',
          tema @ js '' EF'' @ codigoAno @ area,
          if js_includes (toLowerCase disciplina) (js ''ingl'') then tema
          else tema @ js '' BNCC''])
      else queries_genericas tema disciplina serie anoSerie)"

text \<open>
  The loop that runs the queries. The engine is outside the program: \<open>engine i q\<close> is
  what the \<open>i\<close>-th call, with query \<open>q\<close>, does: it throws (\<open>Inl\<close>) or returns a result
  (\<open>Inr\<close>). The \<open>catch\<close> logs the error and goes on with the next query.
\<close>

fun executar_queries ::
  "(nat \<Rightarrow> jsstring \<Rightarrow> 'e + RAGQueryResult) \<Rightarrow> nat \<Rightarrow> jsstring list \<Rightarrow> QueryOutcome list" where
  "executar_queries engine i [] = []"
| "executar_queries engine i (q # qs) =
     (case engine i q of
        Inl e \<Rightarrow> executar_queries engine (Suc i) qs
      | Inr r \<Rightarrow>
          \<lparr> query = q, query_response = rag_response r, nodes = rag_sourceNodes r \<rparr>
            # executar_queries engine (Suc i) qs)"

text \<open>
  \<open>consultarBNCC\<close>. \<open>initializeQueryEngine\<close> is awaited outside any \<open>try\<close>: when it
  throws (the index is missing), so does \<open>consultarBNCC\<close>. \<open>init\<close> is its outcome.
\<close>

definition consultarBNCC ::
  "'e + (nat \<Rightarrow> jsstring \<Rightarrow> 'e + RAGQueryResult) \<Rightarrow> jsstring \<Rightarrow> jsstring \<Rightarrow> jsstring \<Rightarrow> jsstring
     \<Rightarrow> 'e + MultiQueryResult" where
  "consultarBNCC init tema disciplina serie anoSerie =
     (case init of
        Inl e \<Rightarrow> Inl e
      | Inr engine \<Rightarrow>
          (let nivelEscolar = detectarNivelEscolar serie;
               areaBNCC = detectarAreaBNCC disciplina (Some nivelEscolar);
               anoEsperado = extrairNumeroAno serie;
               qs = planejar_queries tema disciplina serie anoSerie nivelEscolar areaBNCC anoEsperado;
               results = executar_queries engine 0 qs;
               allNodes = concat (map nodes results);
               nodesFiltrados = filtrarNodesPorRelevancia allNodes tema disciplina serie areaBNCC;
               uniqueNodes = removerNodesDuplicados nodesFiltrados 10;
               combinedResponse = join (map query_response results) [10, 10];
               habs = extrairHabilidadesBNCC uniqueNodes nivelEscolar areaBNCC anoEsperado
           in Inr \<lparr> response = combinedResponse, sourceNodes = uniqueNodes, queries = qs,
                     habilidades = habs \<rparr>))"

section \<open>The controller (controllers/context.controller)\<close>

text \<open>The final validation of the skills returned by the service.\<close>

definition habilidadesValidas :: "NivelEscolar \<Rightarrow> Habilidade list \<Rightarrow> Habilidade list" where
  "habilidadesValidas nivelEscolar hs =
     filter (\<lambda>h. validarHabilidadeNivel (codigo h) nivelEscolar) hs"

section \<open>Notions used in the statements\<close>

text \<open>
  The structural grammar of a code, in the words of the specification: the prefix
  \<open>EF\<close> or \<open>EM\<close>, two digits, \<open>nl\<close> upper-case letters and \<open>nt\<close> trailing digits,
  where \<open>nl\<close> and \<open>nt\<close> are 2 or 3.
\<close>

definition forma_codigo :: "nat \<Rightarrow> nat \<Rightarrow> jsstring \<Rightarrow> bool" where
  "forma_codigo nl nt s =
     (length s = 4 + nl + nt
      \<and> (take 2 s = js ''EF'' \<or> take 2 s = js ''EM'')
      \<and> list_all isDigit (take 2 (drop 2 s))
      \<and> list_all isUpperAZ (take nl (drop 4 s))
      \<and> list_all isDigit (drop (4 + nl) s))"

definition codigo_estrutural :: "jsstring \<Rightarrow> bool" where
  "codigo_estrutural s =
     (forma_codigo 2 2 s \<or> forma_codigo 2 3 s \<or> forma_codigo 3 2 s \<or> forma_codigo 3 3 s)"

text \<open>Invariant of the deduplicator's loop, over the nodes \<open>ns\<close> it reads.\<close>

definition inv_duplicados ::
  "nat \<Rightarrow> 'a RAGNode_scheme list \<Rightarrow> 'a RAGNode_scheme list \<times> int set \<Rightarrow> bool" where
  "inv_duplicados m ns st =
     (distinct (map page_number (fst st)) \<and> length (fst st) \<le> m
      \<and> (\<forall>n \<in> set (fst st). \<exists>p. page_number n = Some p \<and> p \<noteq> 0 \<and> p \<in> snd st)
      \<and> set (fst st) \<subseteq> set ns)"

text \<open>
  Invariant of the extractor's map, over the set \<open>vistos\<close> of the captures registered so
  far: the keys are distinct, every entry is a capture longer than 10, and no capture
  longer than 10 is longer than the entry of its code.
\<close>

definition inv_registro ::
  "(jsstring \<times> jsstring) set \<Rightarrow> (jsstring \<times> jsstring) list \<Rightarrow> bool" where
  "inv_registro vistos hs =
     (distinct (map fst hs)
      \<and> (\<forall>c d. map_of hs c = Some d \<longrightarrow> (c, d) \<in> vistos \<and> 10 < length d)
      \<and> (\<forall>c d'. (c, d') \<in> vistos \<and> 10 < length d' \<longrightarrow>
            (\<exists>d. map_of hs c = Some d \<and> length d' \<le> length d)))"

text \<open>
  The reading of the specification for the level marker: the label, with the accents
  of its Latin-1 letters removed and in lower case, contains \<open>serie\<close>.
\<close>

definition sem_acento :: "nat \<Rightarrow> nat" where
  "sem_acento c =
     (if 192 \<le> c \<and> c \<le> 197 then 65 else if c = 199 then 67
      else if 200 \<le> c \<and> c \<le> 203 then 69 else if 204 \<le> c \<and> c \<le> 207 then 73
      else if c = 209 then 78 else if 210 \<le> c \<and> c \<le> 214 then 79
      else if 217 \<le> c \<and> c \<le> 220 then 85 else if c = 221 then 89
      else if 224 \<le> c \<and> c \<le> 229 then 97 else if c = 231 then 99
      else if 232 \<le> c \<and> c \<le> 235 then 101 else if 236 \<le> c \<and> c \<le> 239 then 105
      else if c = 241 then 110 else if 242 \<le> c \<and> c \<le> 246 then 111
      else if 249 \<le> c \<and> c \<le> 252 then 117 else if c = 253 \<or> c = 255 then 121
      else c)"

definition contem_marcador_spec :: "jsstring \<Rightarrow> bool" where
  "contem_marcador_spec s = js_includes (toLowerCase (map sem_acento s)) (js ''serie'')"

text \<open>
  What the code recognises, read on the label itself: five consecutive code units, the
  first with upper case \<open>S\<close> (or ending in it: sharp s, 223, becomes \<open>SS\<close>; long s is
  383), the second \<open>e\<close> plain or with an acute accent, then \<open>r\<close>, \<open>i\<close> (dotless i
  is 305) and \<open>e\<close>, each in either case.
\<close>

definition unidade_S :: "nat \<Rightarrow> bool" where
  "unidade_S c = (c = 83 \<or> c = 115 \<or> c = 223 \<or> c = 383)"

definition unidade_E_agudo :: "nat \<Rightarrow> bool" where
  "unidade_E_agudo c = (c = 69 \<or> c = 101 \<or> c = 201 \<or> c = 233)"

definition unidade_R :: "nat \<Rightarrow> bool" where
  "unidade_R c = (c = 82 \<or> c = 114)"

definition unidade_I :: "nat \<Rightarrow> bool" where
  "unidade_I c = (c = 73 \<or> c = 105 \<or> c = 305)"

definition unidade_E :: "nat \<Rightarrow> bool" where
  "unidade_E c = (c = 69 \<or> c = 101)"

fun contem_serie :: "jsstring \<Rightarrow> bool" where
  "contem_serie (a # b # c # d # e # r) =
     ((unidade_S a \<and> unidade_E_agudo b \<and> unidade_R c \<and> unidade_I d \<and> unidade_E e)
      \<or> contem_serie (b # c # d # e # r))"
| "contem_serie _ = False"

definition inicio_erie :: "jsstring \<Rightarrow> bool" where
  "inicio_erie r =
     (case r of
        b # c # d # e # _ \<Rightarrow> unidade_E_agudo b \<and> unidade_R c \<and> unidade_I d \<and> unidade_E e
      | _ \<Rightarrow> False)"

text \<open>The passages one planned query adds to the aggregation: none when it fails.\<close>

definition nodes_da_query ::
  "(nat \<Rightarrow> jsstring \<Rightarrow> 'e + RAGQueryResult) \<Rightarrow> nat \<times> jsstring \<Rightarrow> RAGNode list" where
  "nodes_da_query engine iq =
     (case engine (fst iq) (snd iq) of Inl e \<Rightarrow> [] | Inr r \<Rightarrow> rag_sourceNodes r)"

text \<open>An engine on which every query throws.\<close>

definition engine_sem_resposta :: "nat \<Rightarrow> jsstring \<Rightarrow> unit + RAGQueryResult" where
  "engine_sem_resposta i q = Inl ()"

text \<open>Concrete labels for the examples: \<open>9\<ordmasculine> ano\<close>, and \<open>2\<ordfeminine> SERIE\<close> written with E-circumflex (202).\<close>

definition nono_ano :: jsstring where
  "nono_ano = [57, 186] @ js '' ano''"

definition segunda_serie_circunflexo :: jsstring where
  "segunda_serie_circunflexo = [50, 170, 32, 83, 202, 82, 73, 69]"

text \<open>
  The description before the cut, as \<open>descricao_apos\<close> computes it: the text after a
  code up to the end of the line or to the next code on the line, cleaned and trimmed.
\<close>

definition descricao_limpa :: "jsstring \<Rightarrow> jsstring" where
  "descricao_limpa resto =
     (let textoAteFimLinha = takeWhile (\<lambda>c. c \<noteq> 10) resto;
          fim = (case procura_codigo False textoAteFimLinha of
                   None \<Rightarrow> length textoAteFimLinha
                 | Some proximoCodigoMatch \<Rightarrow> proximoCodigoMatch)
      in trim (dropWhile marcador_lista (take fim textoAteFimLinha)))"

text \<open>Concrete nodes for the examples.\<close>

definition no_longo :: RAGNode where
  "no_longo =
     \<lparr> node_text = Some (js ''EF09GE01'' @ replicate 201 97), page_number = Some 1,
       score = Some 0 \<rparr>"

definition no_repetido :: RAGNode where
  "no_repetido =
     \<lparr> node_text = Some (js ''EF09GE01 Analisar mapas'' @ [10]
                          @ js ''EF09GE01 Analisar mapas e dados''),
       page_number = Some 7, score = Some 0 \<rparr>"

definition no_em :: RAGNode where
  "no_em =
     \<lparr> node_text = Some (js ''EM13MAT302 funcoes''), page_number = Some 1,
       score = Some (1 / 2) \<rparr>"

definition no_ef :: RAGNode where
  "no_ef =
     \<lparr> node_text = Some (js ''EF09MA01 funcoes''), page_number = Some 2,
       score = Some (1 / 4) \<rparr>"

definition no_polinomios :: RAGNode where
  "no_polinomios =
     \<lparr> node_text = Some (js ''EF09MA01 funcoes polinomiais''), page_number = Some 3,
       score = Some (1 / 4) \<rparr>"

definition no_polinomios_pontuado :: EnrichedNode where
  "no_polinomios_pontuado =
     \<lparr> node_text = Some (js ''EF09MA01 funcoes polinomiais''), page_number = Some 3,
       score = Some (1 / 4), matchCount = 115, penalizacaoNivel = 0,
       boostedScore = 140, nivelCorreto = True \<rparr>"

text \<open>An engine on which the first query throws and every other returns one node.\<close>

definition engine_primeira_falha :: "nat \<Rightarrow> jsstring \<Rightarrow> unit + RAGQueryResult" where
  "engine_primeira_falha i q =
     (if i = 0 then Inl ()
      else Inr \<lparr> rag_response = js ''ok'', rag_sourceNodes = [no_polinomios] \<rparr>)"

definition no_pagina :: "int option \<Rightarrow> RAGNode" where
  "no_pagina p = \<lparr> node_text = None, page_number = p, score = None \<rparr>"

section \<open>Evaluation on concrete inputs\<close>

text \<open>
  The recursive equations of the scanners are applied on demand only; \<open>calc\<close> collects
  the equations that evaluate the program on a concrete input.
\<close>

declare capturas.simps [simp del] todos_codigos.simps [simp del] toString_nat.simps [simp del]

lemmas calc = js_def toUpperCase_def upper_unit_def toLowerCase_def lower_unit_def isSpace_def
  trim_def isDigit_def isUpperAZ_def parseInt_def SERIE_acento_def SERIE_def
  detectarNivelEscolar_def validarHabilidadeNivel_def match_EF_digitos_def
  validarHabilidadeAno_def resto_digitos_def tenta_letras_def match_area_def
  mapeamentoFundamentalParaArea_def validarHabilidadeArea_def canonicalize_def
  startsWith_ci_def ordinal_def palavras_ano_def casa_numero_palavra_def primeiro_numero_def
  extrairNumeroAno_def obterDescricaoNivelEscolar_def BOOST_HABILIDADE_NIVEL_CORRETO_def
  BOOST_HABILIDADE_AREA_CORRETA_def BOOST_HABILIDADE_ANO_CORRETO_def
  BOOST_MENCIONOU_NIVEL_CORRETO_def BOOST_DISCIPLINA_def BOOST_SERIE_def BOOST_TEMA_EXATO_def
  BOOST_TEMA_PARCIAL_def PENALIDADE_HABILIDADE_NIVEL_ERRADO_def
  PENALIDADE_HABILIDADE_AREA_ERRADA_def PENALIDADE_HABILIDADE_ANO_ERRADO_def
  PENALIDADE_MENCIONOU_NIVEL_ERRADO_def letra_def literal_def prefixo_def repete_def
  casa_codigo_def todos_codigos.simps palavrasExcecao_def palavrasNivel_def area_informada_def
  pontuar_codigo_def texto_minusculo_def boost_texto_def enriquecer_def mantem_def
  filtrarNodesPorRelevancia_def marcador_lista_def descricao_apos_def capturas.simps
  registrar_def capturas_dos_nodes_def todasHabilidades_def habilidade_valida_def
  extrairHabilidadesBNCC_def passo_duplicados_def removerNodesDuplicados_def
  habilidadesValidas_def forma_codigo_def codigo_estrutural_def MAPEAMENTO_MEDIO_def
  MAPEAMENTO_FUNDAMENTAL_def disciplinasEspecificasMedio_def detectarAreaBNCC_def
  toString_nat.simps padStart2_def sp_def queries_genericas_def planejar_queries_def Let_def

lemma parseInt_digit: "parseInt [c] = int c - 48"
  by (simp add: parseInt_def)

section \<open>Grade validation\<close>

text \<open>
  The revision with grade cycles (utils/validators). For a code that starts with \<open>EF\<close>
  and two digits \<open>d1 d2\<close>, and an expected grade \<open>g\<close>: when \<open>d1\<close> is 0 the code
  matches exactly when \<open>d2\<close> and \<open>g\<close> differ by at most 1; when both digits are
  nonzero it matches exactly when \<open>d1 \<le> g \<le> d2\<close>.
\<close>

lemma validarHabilidadeAno_ciclos:
  assumes "d1 \<le> 9" and "d2 \<le> 9"
  shows "(d1 = 0 \<longrightarrow>
            validarHabilidadeAno (js ''EF'' @ [48 + d1, 48 + d2] @ resto) (Some g)
              = (\<bar>int d2 - g\<bar> \<le> 1))
       \<and> (d1 \<noteq> 0 \<and> d2 \<noteq> 0 \<longrightarrow>
            validarHabilidadeAno (js ''EF'' @ [48 + d1, 48 + d2] @ resto) (Some g)
              = (int d1 \<le> g \<and> g \<le> int d2))"
  using assms
  by (auto simp: validarHabilidadeAno_def match_EF_digitos_def isDigit_def parseInt_digit js_def)

text \<open>
  The range digits 69 match grade 7 and not grade 5; the single grade 06 matches
  grade 7 and not grade 8.
\<close>

lemma validarHabilidadeAno_ciclos_exemplos:
  "(6::nat) \<le> 9 \<and> (9::nat) \<le> 9
   \<and> validarHabilidadeAno (js ''EF69LP01'') (Some 7)
   \<and> \<not> validarHabilidadeAno (js ''EF69LP01'') (Some 5)
   \<and> validarHabilidadeAno (js ''EF06MA01'') (Some 7)
   \<and> \<not> validarHabilidadeAno (js ''EF06MA01'') (Some 8)"
  using validarHabilidadeAno_ciclos [of 6 9 "js ''LP01''" 7]
    validarHabilidadeAno_ciclos [of 6 9 "js ''LP01''" 5]
    validarHabilidadeAno_ciclos [of 0 6 "js ''MA01''" 7]
    validarHabilidadeAno_ciclos [of 0 6 "js ''MA01''" 8]
  by (simp add: js_def)

text \<open>
  The revision in the file of the controller compares the expected grade with the first
  digit only, whatever the second digit is.
\<close>

lemma validarHabilidadeAno_rev1_primeiro_digito:
  assumes "d1 \<le> 9" and "d2 \<le> 9"
  shows "validarHabilidadeAno_rev1 (js ''EF'' @ [48 + d1, 48 + d2] @ resto) (Some g)
           = (\<bar>int d1 - g\<bar> \<le> 1)"
  using assms
  by (auto simp: validarHabilidadeAno_rev1_def extrairAnoDaHabilidade_rev1_def
      match_EF_digitos_def isDigit_def parseInt_digit js_def)

text \<open>
  Claim C2. On the revision in the file of the controller the claim fails in both of
  its parts: the single-grade code \<open>EF09GE01\<close> is rejected for the expected grade 9,
  which the documentation of the function gives as a match, and the code \<open>EF69LP01\<close>
  of the cycle 6 to 9 is accepted for grade 5 and rejected for grade 8.
\<close>

theorem C2_validarHabilidadeAno_rev1_falha:
  "\<not> validarHabilidadeAno_rev1 (js ''EF09GE01'') (Some 9)
   \<and> validarHabilidadeAno_rev1 (js ''EF69LP01'') (Some 5)
   \<and> \<not> validarHabilidadeAno_rev1 (js ''EF69LP01'') (Some 8)"
  by (simp add: validarHabilidadeAno_rev1_def extrairAnoDaHabilidade_rev1_def
      match_EF_digitos_def isDigit_def parseInt_digit js_def)

section \<open>Grade extraction\<close>

text \<open>
  Claim C3. The label \<open>10\<ordmasculine> ano\<close> takes the path of the pattern next to the grade
  word, which returns the number without the check of the range 1 to 9: the result
  is 10.
\<close>

theorem C3_extrairNumeroAno_fora_da_faixa:
  "extrairNumeroAno ([49, 48, 186] @ js '' ano'') = Some 10"
  by (simp add: calc)

text \<open>The fallback path, taken when the pattern finds nothing, does check the range.\<close>

lemma extrairNumeroAno_fallback:
  "procura_numero_palavra serie = None \<Longrightarrow> extrairNumeroAno serie = Some n \<Longrightarrow> 1 \<le> n \<and> n \<le> 9"
  by (auto simp: extrairNumeroAno_def Let_def split: option.splits if_splits)

section \<open>Area validation\<close>

lemma tenta_letras_Some:
  "tenta_letras n r = Some ls \<Longrightarrow>
     n \<le> length r \<and> list_all isUpperAZ (take n r) \<and> resto_digitos (drop n r)"
  by (auto simp: tenta_letras_def split: if_splits)

lemma match_area_estrutural: "match_area cod = Some ls \<Longrightarrow> codigo_estrutural cod"
  apply (auto simp: match_area_def split: list.splits if_splits option.splits
      dest!: tenta_letras_Some)
   apply (auto simp: codigo_estrutural_def forma_codigo_def resto_digitos_def js_def)
  done

text \<open>The expression of the code and the grammar accept the same strings.\<close>

lemma forma_match:
  assumes "forma_codigo nl nt s" and "nl = 2 \<or> nl = 3" and "nt = 2 \<or> nt = 3"
  shows "match_area s = Some (take nl (drop 4 s))"
proof -
  from assms(1) have len: "length s = 4 + nl + nt"
    and pre: "take 2 s = js ''EF'' \<or> take 2 s = js ''EM''"
    and dig: "list_all isDigit (take 2 (drop 2 s))"
    and letras: "list_all isUpperAZ (take nl (drop 4 s))"
    and fim: "list_all isDigit (drop (4 + nl) s)"
    by (simp_all add: forma_codigo_def)
  from len assms(2,3) obtain e x a b r where s: "s = e # x # a # b # r"
    by (cases s rule: list.exhaust; simp; rename_tac t; case_tac t; simp; rename_tac t;
        case_tac t; simp; rename_tac t; case_tac t; simp)
  with len have lr: "length r = nl + nt" by simp
  from s pre have ex: "e = 69 \<and> (x = 70 \<or> x = 77)" by (auto simp: js_def)
  from s dig have ab: "isDigit a \<and> isDigit b" by (simp add: eval_nat_numeral)
  from s letras have l: "list_all isUpperAZ (take nl r)" by (simp add: eval_nat_numeral)
  from s fim have f: "list_all isDigit (drop nl r)" by (simp add: eval_nat_numeral)
  have nt: "tenta_letras nl r = Some (take nl r)"
    using lr l f assms(3) by (auto simp: tenta_letras_def resto_digitos_def)
  have "tenta_letras 3 r = None" if "nl = 2"
  proof -
    from that lr assms(3) have "2 < length r" by auto
    with that f have "isDigit (drop 2 r ! 0)" by (simp add: list_all_length del: nth_drop)
    with \<open>2 < length r\<close> have "isDigit (r ! 2)" by simp
    then have "\<not> isUpperAZ (r ! 2)" by (simp add: isDigit_def isUpperAZ_def)
    with \<open>2 < length r\<close> have "\<not> list_all isUpperAZ (take 3 r)"
      by (auto simp: list_all_length intro!: exI [of _ 2])
    then show ?thesis by (simp add: tenta_letras_def)
  qed
  with nt assms(2) s ex ab show ?thesis
    by (auto simp: match_area_def)
qed

lemma match_area_completo: "codigo_estrutural s \<Longrightarrow> match_area s \<noteq> None"
  by (auto simp: codigo_estrutural_def dest: forma_match)

text \<open>
  Claim C10. With an expected area that is present (a non-empty string), every string
  outside the structural grammar is rejected by \<open>validarHabilidadeArea\<close>; grade validation
  accepts every code whose prefix and two digits it cannot read.
\<close>

theorem C10_area_rejeita_malformado:
  "(area \<noteq> [] \<and> \<not> codigo_estrutural cod \<longrightarrow> \<not> validarHabilidadeArea cod (Some area))
   \<and> (match_EF_digitos cod = None \<longrightarrow> validarHabilidadeAno cod ano)"
  using match_area_estrutural [of cod]
  by (auto simp: validarHabilidadeArea_def validarHabilidadeAno_def split: option.splits)

theorem C10_area_rejeita_malformado_witness:
  "js ''GE'' \<noteq> [] \<and> \<not> codigo_estrutural (js ''EF9GE01'')
   \<and> \<not> validarHabilidadeArea (js ''EF9GE01'') (Some (js ''GE''))
   \<and> match_EF_digitos (js ''EF9GE01'') = None
   \<and> validarHabilidadeAno (js ''EF9GE01'') (Some 9)"
  using C10_area_rejeita_malformado [of "js ''GE''" "js ''EF9GE01''" "Some 9"]
  by (simp add: calc)

section \<open>The deduplicator\<close>

lemma passo_duplicados_inv:
  "inv_duplicados m ns st \<Longrightarrow> n \<in> set ns \<Longrightarrow> inv_duplicados m ns (passo_duplicados m st n)"
  by (auto simp: inv_duplicados_def passo_duplicados_def split: option.splits)

lemma foldl_duplicados_inv:
  "inv_duplicados m ns st \<Longrightarrow> set xs \<subseteq> set ns
     \<Longrightarrow> inv_duplicados m ns (foldl (passo_duplicados m) st xs)"
proof (induction xs arbitrary: st)
  case Nil
  then show ?case by simp
next
  case (Cons x xs)
  from Cons.prems have "inv_duplicados m ns (passo_duplicados m st x)"
    by (intro passo_duplicados_inv) simp_all
  with Cons.IH [of "passo_duplicados m st x"] Cons.prems show ?case by simp
qed

text \<open>
  Claim C7. The output of the deduplicator has no two nodes with the same page, has at
  most \<open>maxNodes\<close> nodes, and every node in it has a page (other than 0); the output
  is made of input nodes.
\<close>

theorem C7_removerNodesDuplicados:
  "distinct (map page_number (removerNodesDuplicados ns m))
   \<and> length (removerNodesDuplicados ns m) \<le> m
   \<and> (\<forall>n \<in> set (removerNodesDuplicados ns m). \<exists>p. page_number n = Some p \<and> p \<noteq> 0)
   \<and> set (removerNodesDuplicados ns m) \<subseteq> set ns"
proof -
  have "inv_duplicados m ns ([], {})"
    by (simp add: inv_duplicados_def)
  then have "inv_duplicados m ns (foldl (passo_duplicados m) ([], {}) ns)"
    by (rule foldl_duplicados_inv) simp
  then show ?thesis
    unfolding removerNodesDuplicados_def inv_duplicados_def by blast
qed

theorem C7_removerNodesDuplicados_witness:
  "removerNodesDuplicados
     [no_pagina (Some 4), no_pagina None, no_pagina (Some 4), no_pagina (Some 0),
      no_pagina (Some 5), no_pagina (Some 6)] 2
     = [no_pagina (Some 4), no_pagina (Some 5)]
   \<and> distinct (map page_number [no_pagina (Some 4), no_pagina (Some 5)])
   \<and> length [no_pagina (Some 4), no_pagina (Some 5)] \<le> (2::nat)"
  using C7_removerNodesDuplicados
    [of "[no_pagina (Some 4), no_pagina None, no_pagina (Some 4), no_pagina (Some 0),
          no_pagina (Some 5), no_pagina (Some 6)]" 2]
  by (simp add: removerNodesDuplicados_def passo_duplicados_def no_pagina_def)

section \<open>The code extractor\<close>

lemma casa_codigo_nao_E: "c \<noteq> 69 \<Longrightarrow> casa_codigo False (c # r) = None"
  by (simp add: casa_codigo_def prefixo_def literal_def js_def)

lemma capturas_Nil: "capturas [] = []"
  by (subst capturas.simps) (simp add: casa_codigo_def prefixo_def js_def)

lemma capturas_nao_E: "c \<noteq> 69 \<Longrightarrow> capturas (c # r) = capturas r"
  by (subst capturas.simps) (simp add: casa_codigo_nao_E)

lemma capturas_replicate: "c \<noteq> 69 \<Longrightarrow> capturas (replicate n c) = []"
  by (induction n) (simp_all add: capturas_Nil capturas_nao_E)

lemma procura_codigo_replicate: "c \<noteq> 69 \<Longrightarrow> procura_codigo False (replicate n c) = None"
  by (induction n) (simp_all add: casa_codigo_nao_E)

text \<open>A run of more than 200 letters \<open>a\<close> is cut to 200 and three dots are appended.\<close>

lemma descricao_apos_letras:
  assumes "200 < n"
  shows "descricao_apos (replicate n 97) = replicate 200 97 @ js ''...''"
proof -
  have 1: "takeWhile (\<lambda>c. c \<noteq> 10) (replicate n (97::nat)) = replicate n 97"
    by (simp add: takeWhile_replicate)
  have 2: "dropWhile marcador_lista (replicate n (97::nat)) = replicate n 97"
    by (simp add: dropWhile_replicate marcador_lista_def isSpace_def)
  have 3: "trim (replicate n (97::nat)) = replicate n 97"
    by (simp add: trim_def dropWhile_replicate isSpace_def)
  have 4: "take 200 (replicate n (97::nat)) = replicate 200 97"
    using assms by (simp add: min_def)
  show ?thesis
    using assms
    by (simp add: descricao_apos_def Let_def procura_codigo_replicate 1 2 3 4
        marcador_lista_def isSpace_def)
qed

lemma capturas_no_longo:
  "capturas (js ''EF09GE01'' @ replicate 201 97)
     = [(js ''EF09GE01'', replicate 200 97 @ js ''...'')]"
proof -
  have c: "casa_codigo False (69 # 70 # 48 # 57 # 71 # 69 # 48 # 49 # replicate 201 97) = Some 8"
    by (simp add: casa_codigo_def prefixo_def literal_def repete_def isDigit_def letra_def
        isUpperAZ_def js_def)
  show ?thesis
    by (subst capturas.simps) (simp add: js_def c capturas_replicate descricao_apos_letras)
qed

lemma extrair_no_longo:
  "extrairHabilidadesBNCC [no_longo] Fundamental None None
     = [\<lparr> codigo = js ''EF09GE01'', descricao = replicate 200 97 @ js ''...'' \<rparr>]"
  by (simp add: extrairHabilidadesBNCC_def todasHabilidades_def capturas_dos_nodes_def
      no_longo_def capturas_no_longo registrar_def habilidade_valida_def area_informada_def
      validarHabilidadeNivel_def, simp add: js_def)

lemma extrair_no_repetido:
  "extrairHabilidadesBNCC [no_repetido] Fundamental None None
     = [\<lparr> codigo = js ''EF09GE01'', descricao = js ''Analisar mapas e dados'' \<rparr>]"
  by (simp add: calc no_repetido_def)

lemma capturas_no_repetido:
  "capturas_dos_nodes [no_repetido]
     = [(js ''EF09GE01'', js ''Analisar mapas''), (js ''EF09GE01'', js ''Analisar mapas e dados'')]"
  by (simp add: calc no_repetido_def)

lemma length_descricao_apos: "length (descricao_apos r) \<le> 203"
  by (simp add: descricao_apos_def Let_def js_def)

lemma descricao_apos_longa:
  "200 < length (descricao_apos r) \<Longrightarrow>
     length (descricao_apos r) = 203 \<and> drop 200 (descricao_apos r) = js ''...''"
  by (auto simp: descricao_apos_def Let_def js_def split: if_splits)

lemma capturas_descricao: "(c, d) \<in> set (capturas s) \<Longrightarrow> \<exists>r. d = descricao_apos r"
proof (induction s rule: capturas.induct)
  case (1 s)
  show ?case
  proof (cases "casa_codigo False s")
    case None
    show ?thesis
    proof (cases s)
      case Nil
      with None "1.prems" show ?thesis
        by (simp add: capturas.simps [of "[]"])
    next
      case (Cons a r)
      with None "1.prems" have "(c, d) \<in> set (capturas r)"
        by (simp add: capturas.simps [of "a # r"])
      with "1.IH" None Cons show ?thesis by blast
    qed
  next
    case (Some n)
    with "1.prems" have "d = descricao_apos (drop n s) \<or> (c, d) \<in> set (capturas (drop n s))"
      by (subst (asm) capturas.simps) auto
    with "1.IH" Some show ?thesis by blast
  qed
qed

lemma registrar_inv:
  assumes "inv_registro vistos hs"
  shows "inv_registro (insert cd vistos) (registrar hs cd)"
proof -
  obtain a b where cd: "cd = (a, b)" by (cases cd)
  from assms have d: "distinct (map fst hs)"
    and sub: "\<And>c d. map_of hs c = Some d \<Longrightarrow> (c, d) \<in> vistos \<and> 10 < length d"
    and mx: "\<And>c d'. (c, d') \<in> vistos \<Longrightarrow> 10 < length d' \<Longrightarrow>
               \<exists>d. map_of hs c = Some d \<and> length d' \<le> length d"
    unfolding inv_registro_def by blast+
  show ?thesis
  proof (cases "10 < length b
                \<and> (case map_of hs a of None \<Rightarrow> True | Some d0 \<Rightarrow> length d0 < length b)")
    case True
    then have r: "registrar hs cd = AList.update a b hs"
      by (auto simp: registrar_def cd split: option.splits)
    have m: "map_of (AList.update a b hs) = (map_of hs)(a \<mapsto> b)"
      by (rule update_conv')
    have 1: "distinct (map fst (AList.update a b hs))"
      using d by (rule distinct_update)
    have 2: "(c, e) \<in> insert cd vistos \<and> 10 < length e"
      if "map_of (AList.update a b hs) c = Some e" for c e
      using that True sub [of c e] by (auto simp: m cd split: if_splits)
    have 3: "\<exists>e. map_of (AList.update a b hs) c = Some e \<and> length d' \<le> length e"
      if "(c, d') \<in> insert cd vistos" "10 < length d'" for c d'
    proof (cases "c = a")
      case ca: True
      show ?thesis
      proof (cases "(c, d') = cd")
        case True
        then show ?thesis by (simp add: m cd)
      next
        case False
        with that have "(c, d') \<in> vistos" by simp
        from mx [OF this that(2)]
        obtain e0 where "map_of hs c = Some e0" "length d' \<le> length e0"
          by blast
        with True ca show ?thesis by (auto simp: m)
      qed
    next
      case False
      with that have "(c, d') \<in> vistos" by (auto simp: cd)
      from mx [OF this that(2)] False show ?thesis by (simp add: m)
    qed
    from 1 2 3 show ?thesis unfolding inv_registro_def r by blast
  next
    case False
    then have r: "registrar hs cd = hs"
      by (auto simp: registrar_def cd split: option.splits)
    have 2: "(c, e) \<in> insert cd vistos \<and> 10 < length e" if "map_of hs c = Some e" for c e
      using sub [OF that] by simp
    have 3: "\<exists>e. map_of hs c = Some e \<and> length d' \<le> length e"
      if "(c, d') \<in> insert cd vistos" "10 < length d'" for c d'
    proof (cases "(c, d') = cd")
      case True
      with that(2) False obtain d0 where "map_of hs a = Some d0" "\<not> length d0 < length b"
        by (auto simp: cd split: option.splits)
      with True show ?thesis by (auto simp: cd)
    next
      case False
      with that have "(c, d') \<in> vistos" by simp
      from mx [OF this that(2)] show ?thesis .
    qed
    from d 2 3 show ?thesis unfolding inv_registro_def r by blast
  qed
qed

lemma foldl_registrar_inv:
  "inv_registro vistos hs \<Longrightarrow> inv_registro (vistos \<union> set cs) (foldl registrar hs cs)"
proof (induction cs arbitrary: vistos hs)
  case Nil
  then show ?case by simp
next
  case (Cons cd cs)
  from Cons.IH [OF registrar_inv [OF Cons.prems, of cd]] show ?case by simp
qed

lemma todasHabilidades_inv: "inv_registro (set (capturas_dos_nodes ns)) (todasHabilidades ns)"
proof -
  have "inv_registro {} []"
    by (simp add: inv_registro_def)
  from foldl_registrar_inv [OF this, of "capturas_dos_nodes ns"] show ?thesis
    by (simp add: todasHabilidades_def)
qed

text \<open>Every record of the output is an entry of the map.\<close>

lemma extrair_em_todas:
  "h \<in> set (extrairHabilidadesBNCC ns nv ar an) \<Longrightarrow>
     (codigo h, descricao h) \<in> set (todasHabilidades ns)"
  by (auto simp: extrairHabilidadesBNCC_def dest!: in_set_takeD)

lemma extrair_em_capturas:
  assumes "h \<in> set (extrairHabilidadesBNCC ns nv ar an)"
  shows "(codigo h, descricao h) \<in> set (capturas_dos_nodes ns)"
proof -
  have inv: "inv_registro (set (capturas_dos_nodes ns)) (todasHabilidades ns)"
    by (rule todasHabilidades_inv)
  then have "distinct (map fst (todasHabilidades ns))"
    by (simp add: inv_registro_def)
  with extrair_em_todas [OF assms]
  have "map_of (todasHabilidades ns) (codigo h) = Some (descricao h)" by simp
  with inv show ?thesis
    by (auto simp: inv_registro_def)
qed

text \<open>
  Claim C6. The records returned by the extractor have pairwise different codes, and
  the description kept for a code is one of the descriptions captured for it and is
  at least as long as every description captured for it.
\<close>

theorem C6_extrair_sem_duplicatas:
  "distinct (map codigo (extrairHabilidadesBNCC ns nv ar an))
   \<and> (\<forall>h \<in> set (extrairHabilidadesBNCC ns nv ar an).
        (codigo h, descricao h) \<in> set (capturas_dos_nodes ns)
        \<and> (\<forall>d'. (codigo h, d') \<in> set (capturas_dos_nodes ns)
               \<longrightarrow> length d' \<le> length (descricao h)))"
proof -
  let ?hs = "todasHabilidades ns"
  let ?sel = "take 15 (filter (\<lambda>cd. habilidade_valida nv ar an (fst cd)) ?hs)"
  have inv: "inv_registro (set (capturas_dos_nodes ns)) ?hs"
    by (rule todasHabilidades_inv)
  then have d: "distinct (map fst ?hs)"
    by (simp add: inv_registro_def)
  have cod: "map codigo (extrairHabilidadesBNCC ns nv ar an) = map fst ?sel"
    by (simp add: extrairHabilidadesBNCC_def comp_def)
  have "distinct (map fst ?sel)"
    using d by (simp add: distinct_map_filter take_map [symmetric])
  with cod have A: "distinct (map codigo (extrairHabilidadesBNCC ns nv ar an))"
    by simp
  have B: "(codigo h, descricao h) \<in> set (capturas_dos_nodes ns)
        \<and> (\<forall>d'. (codigo h, d') \<in> set (capturas_dos_nodes ns)
               \<longrightarrow> length d' \<le> length (descricao h))"
    if h: "h \<in> set (extrairHabilidadesBNCC ns nv ar an)" for h
  proof -
    from d extrair_em_todas [OF h]
    have m: "map_of ?hs (codigo h) = Some (descricao h)" by simp
    with inv have 2: "10 < length (descricao h)"
      by (auto simp: inv_registro_def)
    have "length d' \<le> length (descricao h)"
      if "(codigo h, d') \<in> set (capturas_dos_nodes ns)" for d'
    proof (cases "10 < length d'")
      case True
      with inv that m show ?thesis
        by (fastforce simp: inv_registro_def)
    next
      case False
      with 2 show ?thesis by simp
    qed
    with extrair_em_capturas [OF h] show ?thesis by blast
  qed
  from A B show ?thesis by blast
qed

text \<open>
  The code \<open>EF09GE01\<close> is captured twice, with descriptions of 14 and 22 code units;
  the record kept has the longer one.
\<close>

theorem C6_extrair_sem_duplicatas_witness:
  "extrairHabilidadesBNCC [no_repetido] Fundamental None None
     = [\<lparr> codigo = js ''EF09GE01'', descricao = js ''Analisar mapas e dados'' \<rparr>]
   \<and> (js ''EF09GE01'', js ''Analisar mapas'') \<in> set (capturas_dos_nodes [no_repetido])
   \<and> length (js ''Analisar mapas'') \<le> length (js ''Analisar mapas e dados'')"
  using C6_extrair_sem_duplicatas [of "[no_repetido]" Fundamental None None]
  by (simp add: extrair_no_repetido capturas_no_repetido)

text \<open>
  What the extractor returns as a description: for an occurrence of the code in the
  text of a node, the cleaned text that follows it when that has at most 200 code
  units, and otherwise its first 200 code units followed by three dots.
\<close>

lemma descricao_apos_corte:
  "descricao_apos r =
     (if 200 < length (descricao_limpa r) then take 200 (descricao_limpa r) @ js ''...''
      else descricao_limpa r)"
  by (simp add: descricao_apos_def descricao_limpa_def Let_def)

lemma capturas_ocorrencia:
  "(c, d) \<in> set (capturas s) \<Longrightarrow> \<exists>pre r. s = pre @ c @ r \<and> d = descricao_apos r"
proof (induction s rule: capturas.induct)
  case (1 s)
  show ?case
  proof (cases "casa_codigo False s")
    case None
    show ?thesis
    proof (cases s)
      case Nil
      with None "1.prems" show ?thesis
        by (simp add: capturas.simps [of "[]"])
    next
      case (Cons a r0)
      with None "1.prems" have "(c, d) \<in> set (capturas r0)"
        by (simp add: capturas.simps [of "a # r0"])
      with "1.IH" None Cons obtain pre r where "r0 = pre @ c @ r" "d = descricao_apos r"
        by blast
      with Cons have "s = (a # pre) @ c @ r \<and> d = descricao_apos r" by simp
      then show ?thesis by blast
    qed
  next
    case (Some n)
    with "1.prems"
    have "(c = take n s \<and> d = descricao_apos (drop n s))
          \<or> (c, d) \<in> set (capturas (drop n s))"
      by (subst (asm) capturas.simps) auto
    then show ?thesis
    proof
      assume "c = take n s \<and> d = descricao_apos (drop n s)"
      then have "s = [] @ c @ drop n s \<and> d = descricao_apos (drop n s)" by simp
      then show ?thesis by blast
    next
      assume "(c, d) \<in> set (capturas (drop n s))"
      with "1.IH" Some obtain pre r where "drop n s = pre @ c @ r" "d = descricao_apos r"
        by blast
      then have "s = (take n s @ pre) @ c @ r \<and> d = descricao_apos r"
        by (metis append_assoc append_take_drop_id)
      then show ?thesis by blast
    qed
  qed
qed

lemma descricao_extraida:
  assumes "h \<in> set (extrairHabilidadesBNCC ns nv ar an)"
  shows "\<exists>node pre r. node \<in> set ns \<and> node_text node = Some (pre @ codigo h @ r)
           \<and> descricao h =
               (if 200 < length (descricao_limpa r)
                then take 200 (descricao_limpa r) @ js ''...'' else descricao_limpa r)"
proof -
  from assms have "(codigo h, descricao h) \<in> set (capturas_dos_nodes ns)"
    by (rule extrair_em_capturas)
  then obtain node where n: "node \<in> set ns"
    and c: "(codigo h, descricao h)
              \<in> set (capturas (case node_text node of None \<Rightarrow> [] | Some t \<Rightarrow> t))"
    by (auto simp: capturas_dos_nodes_def)
  from c obtain t where t: "node_text node = Some t"
    by (cases "node_text node") (auto simp: capturas_Nil)
  with c have "(codigo h, descricao h) \<in> set (capturas t)" by simp
  then obtain pre r where "t = pre @ codigo h @ r" "descricao h = descricao_apos r"
    using capturas_ocorrencia by blast
  with n t show ?thesis
    by (auto simp: descricao_apos_corte)
qed

text \<open>
  So a description has at most 203 code units, and one of more than 200 has exactly
  203, the last three being the dots.
\<close>

lemma descricao_limite:
  "\<forall>h \<in> set (extrairHabilidadesBNCC ns nv ar an).
     length (descricao h) \<le> 203
     \<and> (200 < length (descricao h) \<longrightarrow>
          length (descricao h) = 203 \<and> drop 200 (descricao h) = js ''...'')"
proof
  fix h assume "h \<in> set (extrairHabilidadesBNCC ns nv ar an)"
  then have "(codigo h, descricao h) \<in> set (capturas_dos_nodes ns)"
    by (rule extrair_em_capturas)
  then obtain r where "descricao h = descricao_apos r"
    by (auto simp: capturas_dos_nodes_def dest: capturas_descricao)
  then show "length (descricao h) \<le> 203
     \<and> (200 < length (descricao h) \<longrightarrow>
          length (descricao h) = 203 \<and> drop 200 (descricao h) = js ''...'')"
    using length_descricao_apos [of r] descricao_apos_longa [of r] by simp
qed

text \<open>
  Claim C4. The documentation gives the description of a skill at most 200 characters
  (the comment above the cut, and the description of the record in the README). A
  description captured with 201 code units is returned with 203: the cut keeps 200 and
  the three dots are appended after it.
\<close>

theorem C4_descricao_excede_200:
  "extrairHabilidadesBNCC [no_longo] Fundamental None None
     = [\<lparr> codigo = js ''EF09GE01'', descricao = replicate 200 97 @ js ''...'' \<rparr>]
   \<and> length (replicate 200 (97::nat) @ js ''...'') = 203"
  by (simp add: extrair_no_longo) (simp add: js_def)

section \<open>Level detection\<close>

lemma contem_serie_Cons:
  "contem_serie (a # r) = ((unidade_S a \<and> inicio_erie r) \<or> contem_serie r)"
  by (auto simp: inicio_erie_def split: list.splits)

lemma upper_unit_E: "upper_unit c = [69] \<longleftrightarrow> c = 69 \<or> c = 101"
  by (auto simp: upper_unit_def)

lemma upper_unit_E_agudo: "upper_unit c = [201] \<longleftrightarrow> c = 201 \<or> c = 233"
  by (auto simp: upper_unit_def)

lemma upper_unit_R: "upper_unit c = [82] \<longleftrightarrow> c = 82 \<or> c = 114"
  by (auto simp: upper_unit_def)

lemma upper_unit_I: "upper_unit c = [73] \<longleftrightarrow> c = 73 \<or> c = 105 \<or> c = 305"
  by (auto simp: upper_unit_def)

lemma upper_unit_S: "upper_unit c = [83] \<longleftrightarrow> c = 83 \<or> c = 115 \<or> c = 383"
  by (auto simp: upper_unit_def)

lemma upper_unit_223: "upper_unit 223 = [83, 83]"
  by (simp add: upper_unit_def)

lemma upper_unit_single: "c \<noteq> 223 \<Longrightarrow> \<exists>u. upper_unit c = [u]"
  by (simp add: upper_unit_def)

lemma toUpperCase_Cons: "toUpperCase (c # r) = upper_unit c @ toUpperCase r"
  by (simp add: toUpperCase_def)

lemma toUpperCase_Nil: "toUpperCase [] = []"
  by (simp add: toUpperCase_def)

text \<open>
  A letter other than \<open>S\<close> at the head of the pattern is matched by the whole upper case
  of the first code unit of the label.
\<close>

lemma startsWith_upper:
  assumes "p \<noteq> 83"
  shows "startsWith (toUpperCase s) (p # ps)
     = (case s of [] \<Rightarrow> False
        | b # r \<Rightarrow> upper_unit b = [p] \<and> startsWith (toUpperCase r) ps)"
proof (cases s)
  case Nil
  then show ?thesis by (simp add: toUpperCase_Nil)
next
  case (Cons b r)
  show ?thesis
  proof (cases "b = 223")
    case True
    with assms Cons show ?thesis
      by (simp add: toUpperCase_Cons upper_unit_223)
  next
    case False
    then obtain u where "upper_unit b = [u]"
      using upper_unit_single by blast
    with Cons show ?thesis
      by (simp add: toUpperCase_Cons)
  qed
qed

lemma startsWith_ERIE:
  "startsWith (toUpperCase r) [69, 82, 73, 69] \<or> startsWith (toUpperCase r) [201, 82, 73, 69]
     \<longleftrightarrow> inicio_erie r"
  by (simp add: startsWith_upper inicio_erie_def upper_unit_E upper_unit_E_agudo upper_unit_R
      upper_unit_I unidade_E_agudo_def unidade_R_def unidade_I_def unidade_E_def
      split: list.splits) blast

lemma includes_upper_Cons:
  assumes "p \<noteq> 83"
  shows "js_includes (toUpperCase (a # r)) (83 # p # ps)
     = ((unidade_S a \<and> startsWith (toUpperCase r) (p # ps))
        \<or> js_includes (toUpperCase r) (83 # p # ps))"
proof (cases "a = 223")
  case True
  with assms show ?thesis
    by (simp add: toUpperCase_Cons upper_unit_223 unidade_S_def)
next
  case False
  then obtain u where u: "upper_unit a = [u]"
    using upper_unit_single by blast
  with False upper_unit_S [of a] have "u = 83 \<longleftrightarrow> unidade_S a"
    by (auto simp: unidade_S_def)
  with u show ?thesis
    by (auto simp: toUpperCase_Cons)
qed

lemma includes_SERIE:
  "js_includes (toUpperCase s) SERIE_acento \<or> js_includes (toUpperCase s) SERIE
     \<longleftrightarrow> contem_serie s"
proof (induction s)
  case Nil
  then show ?case
    by (simp add: toUpperCase_Nil SERIE_acento_def SERIE_def js_def)
next
  case (Cons a r)
  have "js_includes (toUpperCase (a # r)) SERIE_acento \<or> js_includes (toUpperCase (a # r)) SERIE
     \<longleftrightarrow> (unidade_S a \<and> (startsWith (toUpperCase r) [69, 82, 73, 69]
                         \<or> startsWith (toUpperCase r) [201, 82, 73, 69]))
         \<or> (js_includes (toUpperCase r) SERIE_acento \<or> js_includes (toUpperCase r) SERIE)"
    unfolding SERIE_acento_def SERIE_def js_def
    by (simp add: includes_upper_Cons) blast
  with Cons.IH show ?case
    by (simp add: startsWith_ERIE contem_serie_Cons)
qed

text \<open>
  Claim C8, as it fails: the label \<open>2\<ordfeminine> SERIE\<close> written with E-circumflex contains
  the marker word in an accent variant, and the level returned is \<open>fundamental\<close>.
\<close>

theorem C8_acento_circunflexo_counterexample:
  "contem_marcador_spec segunda_serie_circunflexo
   \<and> detectarNivelEscolar segunda_serie_circunflexo = Fundamental"
  by (simp add: calc contem_marcador_spec_def sem_acento_def segunda_serie_circunflexo_def)

text \<open>
  Claim C8, amended. \<open>detectarNivelEscolar\<close> returns \<open>medio\<close> exactly for the labels that
  contain the marker word spelt with a plain or an acute-accented first \<open>e\<close>, every
  letter in either case (a code unit whose upper case is or ends in the letter counts
  as the letter); for every other label, other accents included, it returns
  \<open>fundamental\<close>.
\<close>

theorem C8_detectarNivelEscolar:
  "detectarNivelEscolar s = (if contem_serie s then Medio else Fundamental)"
  using includes_SERIE [of s]
  by (simp add: detectarNivelEscolar_def Let_def)

theorem C8_detectarNivelEscolar_witness:
  "detectarNivelEscolar ([50, 170] @ js '' s'' @ [233] @ js ''rie'') = Medio
   \<and> detectarNivelEscolar ([50, 170] @ js '' SERIE'') = Medio
   \<and> detectarNivelEscolar ([55, 186] @ js '' ANO'') = Fundamental
   \<and> detectarNivelEscolar segunda_serie_circunflexo = Fundamental"
  using C8_detectarNivelEscolar [of "[50, 170] @ js '' s'' @ [233] @ js ''rie''"]
    C8_detectarNivelEscolar [of "[50, 170] @ js '' SERIE''"]
    C8_detectarNivelEscolar [of "[55, 186] @ js '' ANO''"]
    C8_detectarNivelEscolar [of segunda_serie_circunflexo]
  by (simp add: js_def segunda_serie_circunflexo_def unidade_S_def unidade_E_agudo_def
      unidade_R_def unidade_I_def unidade_E_def)

section \<open>The relevance scorer\<close>

lemma pontuar_codigo_snd_le: "snd (pontuar_codigo nv an ar bp c) \<le> snd bp"
  by (simp add: pontuar_codigo_def Let_def PENALIDADE_HABILIDADE_NIVEL_ERRADO_def
      PENALIDADE_HABILIDADE_AREA_ERRADA_def PENALIDADE_HABILIDADE_ANO_ERRADO_def)

lemma pontuar_codigo_nivel_errado:
  "\<not> validarHabilidadeNivel (toUpperCase c) nv \<Longrightarrow>
     snd (pontuar_codigo nv an ar bp c) = snd bp - 50"
  by (simp add: pontuar_codigo_def Let_def PENALIDADE_HABILIDADE_NIVEL_ERRADO_def)

lemma foldl_pontuar_le: "snd (foldl (pontuar_codigo nv an ar) bp cs) \<le> snd bp"
proof (induction cs arbitrary: bp)
  case Nil
  then show ?case by simp
next
  case (Cons c cs)
  have "snd (foldl (pontuar_codigo nv an ar) (pontuar_codigo nv an ar bp c) cs)
          \<le> snd (pontuar_codigo nv an ar bp c)"
    by (rule Cons.IH)
  also have "\<dots> \<le> snd bp"
    by (rule pontuar_codigo_snd_le)
  finally show ?case by simp
qed

lemma foldl_pontuar_nivel_errado:
  "c \<in> set cs \<Longrightarrow> \<not> validarHabilidadeNivel (toUpperCase c) nv
     \<Longrightarrow> snd (foldl (pontuar_codigo nv an ar) bp cs) \<le> snd bp - 50"
proof (induction cs arbitrary: bp)
  case Nil
  then show ?case by simp
next
  case (Cons x cs)
  show ?case
  proof (cases "x = c")
    case True
    have "snd (foldl (pontuar_codigo nv an ar) (pontuar_codigo nv an ar bp x) cs)
            \<le> snd (pontuar_codigo nv an ar bp x)"
      by (rule foldl_pontuar_le)
    with True Cons.prems(2) show ?thesis
      by (simp add: pontuar_codigo_nivel_errado)
  next
    case False
    with Cons.prems have "c \<in> set cs" by simp
    from Cons.IH [OF this Cons.prems(2), of "pontuar_codigo nv an ar bp x"]
      pontuar_codigo_snd_le [of nv an ar bp x]
    show ?thesis by simp
  qed
qed

lemma foldl_palavras_le:
  "foldl (\<lambda>p w. if js_includes t w then p + PENALIDADE_MENCIONOU_NIVEL_ERRADO else p) p0 ws
     \<le> p0"
proof (induction ws arbitrary: p0)
  case Nil
  then show ?case by simp
next
  case (Cons w ws)
  from Cons.IH [of "if js_includes t w then p0 + PENALIDADE_MENCIONOU_NIVEL_ERRADO else p0"]
  show ?case
    by (simp add: PENALIDADE_MENCIONOU_NIVEL_ERRADO_def split: if_splits)
qed

lemma texto_enriquecer:
  "texto_minusculo (enriquecer tema disc serie ar node) = texto_minusculo node"
  by (simp add: enriquecer_def texto_minusculo_def Let_def)

text \<open>One code of the wrong level in the text brings the penalty to -50 or below.\<close>

lemma penalidade_nivel_errado:
  assumes "c \<in> set (todos_codigos True (texto_minusculo node))"
    and "\<not> validarHabilidadeNivel (toUpperCase c) (detectarNivelEscolar serie)"
  shows "penalizacaoNivel (enriquecer tema disc serie ar node) \<le> - 50"
proof -
  let ?bp = "foldl (pontuar_codigo (detectarNivelEscolar serie) (extrairNumeroAno serie) ar)
               (boost_texto (texto_minusculo node) tema disc serie, 0)
               (todos_codigos True (texto_minusculo node))"
  have "penalizacaoNivel (enriquecer tema disc serie ar node)
      = foldl (\<lambda>p w. if js_includes (texto_minusculo node) w
                      then p + PENALIDADE_MENCIONOU_NIVEL_ERRADO else p)
          (snd ?bp) (snd (palavrasNivel (detectarNivelEscolar serie)))"
    by (simp add: enriquecer_def Let_def)
  also have "\<dots> \<le> snd ?bp"
    by (rule foldl_palavras_le)
  also have "\<dots> \<le> 0 - 50"
    using foldl_pontuar_nivel_errado [OF assms, of "extrairNumeroAno serie" ar
        "(boost_texto (texto_minusculo node) tema disc serie, 0)"]
    by simp
  finally show ?thesis by simp
qed

text \<open>
  Claim C1, as it fails: the text of \<open>no_em\<close> holds one code, of the wrong level for
  \<open>9\<ordmasculine> ano\<close>, and nothing else that is penalised; its penalty is the single
  level-mismatch penalty, its boost is 90, and the filter removes it.
\<close>

theorem C1_um_codigo_errado_counterexample:
  "todos_codigos True (texto_minusculo no_em) = [js ''em13mat302'']
   \<and> \<not> validarHabilidadeNivel (toUpperCase (js ''em13mat302'')) (detectarNivelEscolar nono_ano)
   \<and> penalizacaoNivel (enriquecer (js ''funcoes'') (js ''Matematica'') nono_ano None no_em)
       = PENALIDADE_HABILIDADE_NIVEL_ERRADO
   \<and> matchCount (enriquecer (js ''funcoes'') (js ''Matematica'') nono_ano None no_em) = 90
   \<and> filtrarNodesPorRelevancia [no_em] (js ''funcoes'') (js ''Matematica'') nono_ano None = []"
  by (simp add: calc no_em_def nono_ano_def)

text \<open>
  Claim C1, amended. The cutoff of the filter, -30, is less negative than the penalty
  of a single level-mismatched code, -50: a passage in whose text one code of the wrong
  level is found has a penalty of -50 or below and is removed, so that every passage the
  scorer returns has a penalty of at least -30 and only codes of the expected level.
\<close>

theorem C1_corte_penalidade:
  "PENALIDADE_HABILIDADE_NIVEL_ERRADO < - 30
   \<and> (\<forall>c \<in> set (todos_codigos True (texto_minusculo node)).
         \<not> validarHabilidadeNivel (toUpperCase c) (detectarNivelEscolar serie)
         \<longrightarrow> penalizacaoNivel (enriquecer tema disc serie ar node) \<le> - 50
             \<and> \<not> mantem (enriquecer tema disc serie ar node))
   \<and> (\<forall>e \<in> set (filtrarNodesPorRelevancia ns tema disc serie ar).
         - 30 \<le> penalizacaoNivel e
         \<and> (\<forall>c \<in> set (todos_codigos True (texto_minusculo e)).
               validarHabilidadeNivel (toUpperCase c) (detectarNivelEscolar serie)))"
proof -
  have A: "penalizacaoNivel (enriquecer tema disc serie ar node) \<le> - 50
             \<and> \<not> mantem (enriquecer tema disc serie ar node)"
    if "c \<in> set (todos_codigos True (texto_minusculo node))"
      and "\<not> validarHabilidadeNivel (toUpperCase c) (detectarNivelEscolar serie)" for c
    using penalidade_nivel_errado [OF that, of tema disc ar]
    by (simp add: mantem_def)
  have B: "- 30 \<le> penalizacaoNivel e
         \<and> (\<forall>c \<in> set (todos_codigos True (texto_minusculo e)).
               validarHabilidadeNivel (toUpperCase c) (detectarNivelEscolar serie))"
    if "e \<in> set (filtrarNodesPorRelevancia ns tema disc serie ar)" for e
  proof -
    from that obtain n where e: "e = enriquecer tema disc serie ar n" and m: "mantem e"
      by (auto simp: filtrarNodesPorRelevancia_def)
    from m have p: "- 30 \<le> penalizacaoNivel e"
      by (simp add: mantem_def split: if_splits)
    have "validarHabilidadeNivel (toUpperCase c) (detectarNivelEscolar serie)"
      if "c \<in> set (todos_codigos True (texto_minusculo e))" for c
    proof (rule ccontr)
      assume "\<not> validarHabilidadeNivel (toUpperCase c) (detectarNivelEscolar serie)"
      with that e penalidade_nivel_errado [of c n serie tema disc ar]
      have "penalizacaoNivel e \<le> - 50"
        by (simp add: texto_enriquecer)
      with p show False by simp
    qed
    with p show ?thesis by blast
  qed
  from A B show ?thesis
    by (simp add: PENALIDADE_HABILIDADE_NIVEL_ERRADO_def)
qed

text \<open>
  Of the two nodes, the one with the code of the wrong level is removed and the one
  with the code of the expected level is returned.
\<close>

theorem C1_corte_penalidade_witness:
  "filtrarNodesPorRelevancia [no_em, no_ef] (js ''funcoes'') (js ''Matematica'') nono_ano None
     = [\<lparr> node_text = Some (js ''EF09MA01 funcoes''), page_number = Some 2,
           score = Some (1 / 4), matchCount = 105, penalizacaoNivel = 0, boostedScore = 130,
           nivelCorreto = True \<rparr>]
   \<and> js ''em13mat302'' \<in> set (todos_codigos True (texto_minusculo no_em))
   \<and> \<not> validarHabilidadeNivel (toUpperCase (js ''em13mat302'')) (detectarNivelEscolar nono_ano)
   \<and> \<not> mantem (enriquecer (js ''funcoes'') (js ''Matematica'') nono_ano None no_em)"
  using C1_corte_penalidade
    [of no_em nono_ano "js ''funcoes''" "js ''Matematica''" None "[no_em, no_ef]"]
  by (simp add: calc no_em_def no_ef_def nono_ano_def)

section \<open>The retrieval service\<close>

lemma executar_todas_falham:
  "\<forall>iq \<in> set (enumerate i qs). isl (engine (fst iq) (snd iq))
     \<Longrightarrow> executar_queries engine i qs = []"
proof (induction qs arbitrary: i)
  case Nil
  then show ?case by simp
next
  case (Cons q qs)
  from Cons.prems obtain e where "engine i q = Inl e"
    by (cases "engine i q") auto
  with Cons show ?case by simp
qed

lemma nodes_executar:
  "concat (map nodes (executar_queries engine i qs))
     = concat (map (nodes_da_query engine) (enumerate i qs))"
  by (induction qs arbitrary: i) (auto simp: nodes_da_query_def split: sum.splits)

lemma filtrar_Nil: "filtrarNodesPorRelevancia [] tema disc serie ar = []"
  by (simp add: filtrarNodesPorRelevancia_def)

lemma remover_Nil: "removerNodesDuplicados [] m = []"
  by (simp add: removerNodesDuplicados_def)

lemma extrair_Nil: "extrairHabilidadesBNCC [] nv ar an = []"
  by (simp add: extrairHabilidadesBNCC_def todasHabilidades_def capturas_dos_nodes_def)

lemma queries_guerra_fria:
  "planejar_queries (js ''Guerra Fria'') (js ''Historia'') nono_ano (js ''Ensino fundamental'')
     Fundamental (Some (js ''HI'')) (Some 9)
   = [[57, 186] @ js '' ano Historia Guerra Fria habilidades EF09HI'',
      js ''EF09HI Historia Guerra Fria'',
      [57, 186] @ js '' ano Historia Guerra Fria objetos conhecimento'',
      js ''Guerra Fria EF09HI'',
      js ''Guerra Fria BNCC'']"
  by (simp add: calc nono_ano_def)

lemma classificacao_guerra_fria:
  "detectarNivelEscolar nono_ano = Fundamental
   \<and> detectarAreaBNCC (js ''Historia'') (Some Fundamental) = Some (js ''HI'')
   \<and> extrairNumeroAno nono_ano = Some 9"
  by (simp add: calc nono_ano_def)

text \<open>
  A run in which the first of the five planned queries throws: the request succeeds,
  with the node and the skill that the four other queries bring.
\<close>

lemma classificacao_funcoes:
  "detectarNivelEscolar nono_ano = Fundamental
   \<and> detectarAreaBNCC (js ''Matematica'') (Some Fundamental) = Some (js ''MA'')
   \<and> extrairNumeroAno nono_ano = Some 9"
  by (simp add: calc nono_ano_def)

lemma enriquecer_polinomios:
  "enriquecer (js ''funcoes'') (js ''Matematica'') nono_ano (Some (js ''MA'')) no_polinomios
     = no_polinomios_pontuado"
  by (simp add: calc no_polinomios_def no_polinomios_pontuado_def nono_ano_def)

lemma mantem_polinomios: "mantem no_polinomios_pontuado"
  by (simp add: mantem_def no_polinomios_pontuado_def)

lemma filtrar_polinomios:
  "filtrarNodesPorRelevancia [no_polinomios, no_polinomios, no_polinomios, no_polinomios]
     (js ''funcoes'') (js ''Matematica'') nono_ano (Some (js ''MA''))
   = [no_polinomios_pontuado, no_polinomios_pontuado, no_polinomios_pontuado,
      no_polinomios_pontuado]"
  by (simp add: filtrarNodesPorRelevancia_def enriquecer_polinomios mantem_polinomios)

lemma remover_polinomios:
  "removerNodesDuplicados
     [no_polinomios_pontuado, no_polinomios_pontuado, no_polinomios_pontuado,
      no_polinomios_pontuado] 10
   = [no_polinomios_pontuado]"
  by (simp add: removerNodesDuplicados_def passo_duplicados_def no_polinomios_pontuado_def)

lemma extrair_polinomios:
  "extrairHabilidadesBNCC [no_polinomios_pontuado] Fundamental (Some (js ''MA'')) (Some 9)
   = [\<lparr> codigo = js ''EF09MA01'', descricao = js ''funcoes polinomiais'' \<rparr>]"
  by (simp add: calc no_polinomios_pontuado_def)

lemma executar_primeira_falha:
  "executar_queries engine_primeira_falha 0 [q0, q1, q2, q3, q4]
   = [\<lparr> query = q1, query_response = js ''ok'', nodes = [no_polinomios] \<rparr>,
      \<lparr> query = q2, query_response = js ''ok'', nodes = [no_polinomios] \<rparr>,
      \<lparr> query = q3, query_response = js ''ok'', nodes = [no_polinomios] \<rparr>,
      \<lparr> query = q4, query_response = js ''ok'', nodes = [no_polinomios] \<rparr>]"
  by (simp add: engine_primeira_falha_def)

lemma queries_funcoes:
  "planejar_queries (js ''funcoes'') (js ''Matematica'') nono_ano (js ''Ensino fundamental'')
     Fundamental (Some (js ''MA'')) (Some 9)
   = [[57, 186] @ js '' ano Matematica funcoes habilidades EF09MA'',
      js ''EF09MA Matematica funcoes'',
      [57, 186] @ js '' ano Matematica funcoes objetos conhecimento'',
      js ''funcoes EF09MA'',
      js ''funcoes BNCC'']"
  by (simp add: calc nono_ano_def)

lemma consultarBNCC_uma_falha:
  "consultarBNCC (Inr engine_primeira_falha) (js ''funcoes'') (js ''Matematica'') nono_ano
     (js ''Ensino fundamental'')
   = Inr \<lparr> response = js ''ok'' @ [10, 10] @ js ''ok'' @ [10, 10] @ js ''ok'' @ [10, 10]
                        @ js ''ok'',
           sourceNodes = [no_polinomios_pontuado],
           queries = [[57, 186] @ js '' ano Matematica funcoes habilidades EF09MA'',
                      js ''EF09MA Matematica funcoes'',
                      [57, 186] @ js '' ano Matematica funcoes objetos conhecimento'',
                      js ''funcoes EF09MA'',
                      js ''funcoes BNCC''],
           habilidades =
             [\<lparr> codigo = js ''EF09MA01'', descricao = js ''funcoes polinomiais'' \<rparr>] \<rparr>"
  by (simp add: consultarBNCC_def Let_def classificacao_funcoes queries_funcoes
      executar_primeira_falha filtrar_polinomios remover_polinomios extrair_polinomios
      del: executar_queries.simps)

text \<open>
  Claim C5, as it fails: with an engine on which every planned query throws,
  \<open>consultarBNCC\<close> does not fail; it returns a result with the five planned queries, no
  passage and no skill.
\<close>

theorem C5_todas_falham_counterexample:
  "consultarBNCC (Inr engine_sem_resposta) (js ''Guerra Fria'') (js ''Historia'') nono_ano
     (js ''Ensino fundamental'')
   = Inr \<lparr> response = [], sourceNodes = [],
           queries = [[57, 186] @ js '' ano Historia Guerra Fria habilidades EF09HI'',
                      js ''EF09HI Historia Guerra Fria'',
                      [57, 186] @ js '' ano Historia Guerra Fria objetos conhecimento'',
                      js ''Guerra Fria EF09HI'',
                      js ''Guerra Fria BNCC''],
           habilidades = [] \<rparr>"
proof -
  have x: "executar_queries engine_sem_resposta 0 qs = []" for qs
    by (rule executar_todas_falham) (simp add: engine_sem_resposta_def)
  show ?thesis
    by (simp add: consultarBNCC_def Let_def classificacao_guerra_fria x queries_guerra_fria
        filtrar_Nil remover_Nil extrair_Nil)
qed

text \<open>
  Claim C5, amended. A planned query that fails never fails the request: whatever the
  queries do, \<open>consultarBNCC\<close> returns a result, computed from the passages of the
  queries that succeeded; when all planned queries fail the result has no passage, no
  skill and an empty response. The request fails only when the engine cannot be
  initialised.
\<close>

theorem C5_falhas_isoladas:
  "consultarBNCC (Inl err) tema disc serie anoSerie = (Inl err :: 'e + MultiQueryResult)
   \<and> (\<exists>r. consultarBNCC (Inr engine :: 'e + (nat \<Rightarrow> jsstring \<Rightarrow> 'e + RAGQueryResult))
             tema disc serie anoSerie = Inr r
          \<and> sourceNodes r =
              removerNodesDuplicados
                (filtrarNodesPorRelevancia
                   (concat (map (nodes_da_query engine) (enumerate 0 (queries r))))
                   tema disc serie (detectarAreaBNCC disc (Some (detectarNivelEscolar serie))))
                10
          \<and> ((\<forall>iq \<in> set (enumerate 0 (queries r)). isl (engine (fst iq) (snd iq)))
               \<longrightarrow> sourceNodes r = [] \<and> habilidades r = [] \<and> response r = []))"
proof -
  let ?nv = "detectarNivelEscolar serie"
  let ?ar = "detectarAreaBNCC disc (Some ?nv)"
  let ?an = "extrairNumeroAno serie"
  let ?qs = "planejar_queries tema disc serie anoSerie ?nv ?ar ?an"
  let ?res = "executar_queries engine 0 ?qs"
  let ?un = "removerNodesDuplicados
               (filtrarNodesPorRelevancia (concat (map nodes ?res)) tema disc serie ?ar) 10"
  let ?r = "\<lparr> response = join (map query_response ?res) [10, 10],
             sourceNodes = ?un, queries = ?qs,
             habilidades = extrairHabilidadesBNCC ?un ?nv ?ar ?an \<rparr>"
  have 1: "consultarBNCC (Inr engine) tema disc serie anoSerie = Inr ?r"
    by (simp add: consultarBNCC_def Let_def)
  have 2: "sourceNodes ?r = [] \<and> habilidades ?r = [] \<and> response ?r = []"
    if "\<forall>iq \<in> set (enumerate 0 (queries ?r)). isl (engine (fst iq) (snd iq))"
  proof -
    from that have vazio: "?res = []"
      by (intro executar_todas_falham) simp
    show ?thesis
      by (simp add: vazio filtrar_Nil remover_Nil extrair_Nil)
  qed
  have 3: "consultarBNCC (Inl err) tema disc serie anoSerie = (Inl err :: 'e + MultiQueryResult)"
    by (simp add: consultarBNCC_def)
  have 4: "sourceNodes ?r =
              removerNodesDuplicados
                (filtrarNodesPorRelevancia
                   (concat (map (nodes_da_query engine) (enumerate 0 (queries ?r))))
                   tema disc serie ?ar) 10"
    by (simp add: nodes_executar)
  from 1 4 2 have "\<exists>r. consultarBNCC (Inr engine) tema disc serie anoSerie = Inr r
          \<and> sourceNodes r =
              removerNodesDuplicados
                (filtrarNodesPorRelevancia
                   (concat (map (nodes_da_query engine) (enumerate 0 (queries r))))
                   tema disc serie ?ar) 10
          \<and> ((\<forall>iq \<in> set (enumerate 0 (queries r)). isl (engine (fst iq) (snd iq)))
               \<longrightarrow> sourceNodes r = [] \<and> habilidades r = [] \<and> response r = [])"
    by blast
  with 3 show ?thesis by blast
qed

theorem C5_falhas_isoladas_witness:
  "consultarBNCC (Inl ()) (js ''Guerra Fria'') (js ''Historia'') nono_ano
     (js ''Ensino fundamental'') = (Inl () :: unit + MultiQueryResult)
   \<and> (\<exists>r. consultarBNCC (Inr engine_sem_resposta) (js ''Guerra Fria'') (js ''Historia'')
             nono_ano (js ''Ensino fundamental'') = Inr r
          \<and> sourceNodes r = [] \<and> habilidades r = [] \<and> response r = [])"
  using C5_falhas_isoladas
    [of "()" "js ''Guerra Fria''" "js ''Historia''" nono_ano "js ''Ensino fundamental''"
        engine_sem_resposta]
  by (auto simp: engine_sem_resposta_def)

section \<open>Level validation\<close>

lemma habilidade_valida_nivel: "habilidade_valida nv ar an c \<Longrightarrow> validarHabilidadeNivel c nv"
  by (simp add: habilidade_valida_def Let_def)

lemma extrair_nivel_valido:
  "\<forall>h \<in> set (extrairHabilidadesBNCC ns nv ar an). validarHabilidadeNivel (codigo h) nv"
  by (auto simp: extrairHabilidadesBNCC_def dest!: in_set_takeD intro: habilidade_valida_nivel)

lemma habilidadesValidas_extrair:
  "habilidadesValidas nv (extrairHabilidadesBNCC ns nv ar an) = extrairHabilidadesBNCC ns nv ar an"
  using extrair_nivel_valido [of ns nv ar an]
  by (simp add: habilidadesValidas_def)

text \<open>
  Claim C9. Filtering a list of codes by \<open>validarHabilidadeNivel\<close> at a fixed level a
  second time changes nothing; the final validation returns the extractor's output as
  it is, and so the skills of every result of \<open>consultarBNCC\<close>, when the controller
  validates them at the level of the same grade label.
\<close>

theorem C9_validacao_idempotente:
  "filter (\<lambda>c. validarHabilidadeNivel c nv) (filter (\<lambda>c. validarHabilidadeNivel c nv) cs)
     = filter (\<lambda>c. validarHabilidadeNivel c nv) cs
   \<and> habilidadesValidas nv (extrairHabilidadesBNCC ns nv ar an)
       = extrairHabilidadesBNCC ns nv ar an
   \<and> (consultarBNCC init tema disc serie anoSerie = Inr r
        \<longrightarrow> habilidadesValidas (detectarNivelEscolar serie) (habilidades r) = habilidades r)"
proof -
  have B: "habilidadesValidas (detectarNivelEscolar serie) (habilidades r) = habilidades r"
    if "consultarBNCC init tema disc serie anoSerie = Inr r"
  proof -
    from that obtain un :: "EnrichedNode list" and ar an
      where "habilidades r = extrairHabilidadesBNCC un (detectarNivelEscolar serie) ar an"
      by (auto simp: consultarBNCC_def Let_def split: sum.splits)
    then show ?thesis
      by (simp add: habilidadesValidas_extrair)
  qed
  then show ?thesis
    by (simp add: habilidadesValidas_extrair)
qed

theorem C9_validacao_idempotente_witness:
  "filter (\<lambda>c. validarHabilidadeNivel c Fundamental)
     (filter (\<lambda>c. validarHabilidadeNivel c Fundamental) [js ''EF09GE01'', js ''EM13MAT302''])
     = [js ''EF09GE01'']
   \<and> habilidadesValidas Fundamental
       [\<lparr> codigo = js ''EF09GE01'', descricao = js ''Analisar mapas e dados'' \<rparr>]
     = extrairHabilidadesBNCC [no_repetido] Fundamental None None
   \<and> habilidadesValidas (detectarNivelEscolar nono_ano)
       [\<lparr> codigo = js ''EF09MA01'', descricao = js ''funcoes polinomiais'' \<rparr>]
     = [\<lparr> codigo = js ''EF09MA01'', descricao = js ''funcoes polinomiais'' \<rparr>]"
  using C9_validacao_idempotente
    [where nv = Fundamental and cs = "[js ''EF09GE01'', js ''EM13MAT302'']"
       and ns = "[no_repetido]" and ar = None and an = None
       and init = "Inr engine_primeira_falha" and tema = "js ''funcoes''"
       and disc = "js ''Matematica''" and serie = nono_ano
       and anoSerie = "js ''Ensino fundamental''"
       and r = "\<lparr> response = js ''ok'' @ [10, 10] @ js ''ok'' @ [10, 10] @ js ''ok'' @ [10, 10]
                                @ js ''ok'',
                   sourceNodes = [no_polinomios_pontuado],
                   queries = [[57, 186] @ js '' ano Matematica funcoes habilidades EF09MA'',
                              js ''EF09MA Matematica funcoes'',
                              [57, 186] @ js '' ano Matematica funcoes objetos conhecimento'',
                              js ''funcoes EF09MA'',
                              js ''funcoes BNCC''],
                   habilidades =
                     [\<lparr> codigo = js ''EF09MA01'', descricao = js ''funcoes polinomiais'' \<rparr>] \<rparr>"]
  by (simp add: extrair_no_repetido consultarBNCC_uma_falha)
     (simp add: validarHabilidadeNivel_def js_def)

end
